theory Spec2Isabelle
  imports Main
begin

section \<open>The contact-form relay of \<^verbatim>\<open>server.js\<close>\<close>

text \<open>
  The repository holds two revisions of one Express server. The \<^emph>\<open>simple\<close> variant
  (lines 1 to 83) checks that the three fields are present and mails them as plain text.
  The \<^emph>\<open>validated\<close> variant (lines 83 to 196) adds a sanitising middleware, a rate
  limiter and express-validator rules, and mails an HTML body. Both are embedded below,
  each middleware as a function of the request and the server's state, in the order in
  which the source registers them.

  Strings are HOL strings, read as the UTF-8 bytes of the JavaScript string. A JavaScript value that may be \<^verbatim>\<open>undefined\<close> (a field of the
  JSON body, the \<^verbatim>\<open>Origin\<close> header, \<^verbatim>\<open>req.body\<close> itself) is an \<open>option\<close>, with
  \<open>None\<close> for \<^verbatim>\<open>undefined\<close>. The fields of a submission are strings or missing, as the
  data model of the specification has them; other JSON types are outside the model.
\<close>

subsection \<open>JavaScript strings\<close>

text \<open>\<^verbatim>\<open>!v\<close> on a value that is a string or \<^verbatim>\<open>undefined\<close>: true for \<^verbatim>\<open>undefined\<close> and for \<^verbatim>\<open>""\<close>.\<close>

definition falsy :: "string option \<Rightarrow> bool" where
  "falsy v = (case v of None \<Rightarrow> True | Some s \<Rightarrow> s = [])"

text \<open>A value inside a template literal: \<^verbatim>\<open>`${v}`\<close> prints \<^verbatim>\<open>undefined\<close> as that word.\<close>

definition interpolate :: "string option \<Rightarrow> string" where
  "interpolate v = (case v of None \<Rightarrow> ''undefined'' | Some s \<Rightarrow> s)"

text \<open>
  White space as \<^verbatim>\<open>String.prototype.trim\<close> and the \<^verbatim>\<open>trim\<close> of validator.js (its
  \<^verbatim>\<open>\s\<close>) strip it, each character in UTF-8: tab, LF, VT, FF, CR, space, U+00A0, U+1680,
  U+2000 to U+200A, U+2028, U+2029, U+202F, U+205F, U+3000 and U+FEFF.
\<close>

definition white_space :: "string list" where
  "white_space =
     [[CHR 0x09], [CHR 0x0A], [CHR 0x0B], [CHR 0x0C], [CHR 0x0D], [CHR 0x20],
      [CHR 0xC2, CHR 0xA0], [CHR 0xE1, CHR 0x9A, CHR 0x80]] @
     map (\<lambda>c. [CHR 0xE2, CHR 0x80, c])
       [CHR 0x80, CHR 0x81, CHR 0x82, CHR 0x83, CHR 0x84, CHR 0x85, CHR 0x86, CHR 0x87,
        CHR 0x88, CHR 0x89, CHR 0x8A, CHR 0xA8, CHR 0xA9, CHR 0xAF] @
     [[CHR 0xE2, CHR 0x81, CHR 0x9F], [CHR 0xE3, CHR 0x80, CHR 0x80],
      [CHR 0xEF, CHR 0xBB, CHR 0xBF]]"

text \<open>
  The number of bytes of the first of the characters \<open>ws\<close> that \<open>s\<close> starts with, 0 when
  it starts with none.
\<close>

definition leading :: "string list \<Rightarrow> string \<Rightarrow> nat" where
  "leading ws s =
     (case find (\<lambda>w. take (length w) s = w) ws of None \<Rightarrow> 0 | Some w \<Rightarrow> length w)"

text \<open>Dropping the characters \<open>ws\<close> from the start of \<open>s\<close>, as long as there is one.\<close>

function strip :: "string list \<Rightarrow> string \<Rightarrow> string" where
  "strip ws s = (if leading ws s = 0 then s else strip ws (drop (leading ws s) s))"
  by pat_completeness auto
termination
proof (relation "measure (\<lambda>(ws, s). length s)")
  show "wf (measure (\<lambda>(ws, s). length s))"
    by simp
next
  fix ws :: "string list" and s :: string
  assume "leading ws s \<noteq> 0"
  moreover have "leading ws [] = 0"
    by (auto simp: leading_def find_Some_iff split: option.splits)
  ultimately have "s \<noteq> []"
    by auto
  with \<open>leading ws s \<noteq> 0\<close>
  show "((ws, drop (leading ws s) s), (ws, s)) \<in> measure (\<lambda>(ws, s). length s)"
    by simp
qed

declare strip.simps [simp del]

text \<open>White space is stripped from the start, then from the end.\<close>

definition trim :: "string \<Rightarrow> string" where
  "trim s = rev (strip (map rev white_space) (rev (strip white_space s)))"

text \<open>\<^verbatim>\<open>s.split(c)\<close> for a one-character separator: \<^verbatim>\<open>"".split(",")\<close> is \<^verbatim>\<open>[""]\<close>.\<close>

fun split_on :: "char \<Rightarrow> string \<Rightarrow> string list" where
  "split_on c [] = [[]]"
| "split_on c (x # xs) =
     (if x = c then [] # split_on c xs
      else (case split_on c xs of [] \<Rightarrow> [[x]] | w # ws \<Rightarrow> (x # w) # ws))"

definition newline :: string where
  "newline = [CHR 0x0A]"

definition dquote :: string where
  "dquote = [CHR 0x22]"

subsection \<open>Configuration, requests, responses\<close>

text \<open>\<^verbatim>\<open>process.env\<close>, read after \<^verbatim>\<open>dotenv.config()\<close>; the three variables are taken as set.\<close>

record env =
  CORS :: string
  EMAIL_USER :: string
  EMAIL_TO :: string

text \<open>The JSON body of \<^verbatim>\<open>POST /connect\<close>: \<^verbatim>\<open>{name, email, message}\<close>.\<close>

record submission =
  name :: "string option"
  email :: "string option"
  message :: "string option"

datatype route = GET_root | POST_connect | Other_route

text \<open>
  A request as the server sees it: \<open>ip\<close> is \<^verbatim>\<open>req.ip\<close>, \<open>origin\<close> is
  \<^verbatim>\<open>req.headers.origin\<close>, \<open>payload\<close> is the JSON object on the wire (it becomes
  \<^verbatim>\<open>req.body\<close> only when \<^verbatim>\<open>express.json()\<close> runs), \<open>arrival\<close> is the clock in
  milliseconds when the request comes in. \<open>headers\<close> holds the request headers named
  \<^verbatim>\<open>name\<close>, \<^verbatim>\<open>email\<close> and \<^verbatim>\<open>message\<close>, and \<open>query\<close> the parameters of these names in
  the query string (\<^verbatim>\<open>req.headers\<close> and \<^verbatim>\<open>req.query\<close>, which the validation chains of
  the validated variant read beside the body).
\<close>

record request =
  ip :: string
  origin :: "string option"
  route :: route
  payload :: submission
  headers :: submission
  query :: submission
  arrival :: nat

text \<open>
  A JavaScript \<^verbatim>\<open>Error\<close>: its \<^verbatim>\<open>message\<close>, and the enumerable properties of its own
  (Nodemailer sets \<^verbatim>\<open>code\<close>, \<^verbatim>\<open>response\<close>, \<^verbatim>\<open>responseCode\<close> and \<^verbatim>\<open>command\<close> on the
  errors it raises).
\<close>

record js_error =
  err_message :: string
  err_props :: "(string \<times> string) list"

datatype jvalue = JStr string | JObj "(string \<times> jvalue) list" | JArr "jvalue list"

datatype body = Text string | Json jvalue | Not_found

record response =
  status :: nat
  body :: body

text \<open>
  \<^verbatim>\<open>res.json\<close> writes \<^verbatim>\<open>JSON.stringify\<close> of its argument, which renders an \<^verbatim>\<open>Error\<close> as
  the object of its enumerable own properties; \<^verbatim>\<open>message\<close> and \<^verbatim>\<open>stack\<close> are not
  enumerable and are left out.
\<close>

definition json_of_error :: "js_error \<Rightarrow> jvalue" where
  "json_of_error error = JObj (map (\<lambda>(k, v). (k, JStr v)) (err_props error))"

subsection \<open>The mail transport\<close>

text \<open>
  \<^verbatim>\<open>mailOptions\<close>: the source's \<^verbatim>\<open>from\<close>, \<^verbatim>\<open>to\<close>, \<^verbatim>\<open>text\<close> and \<^verbatim>\<open>html\<close> are
  \<open>mail_from\<close>, \<open>mail_to\<close>, \<open>mail_text\<close> and \<open>mail_html\<close> here.
\<close>

record mail =
  mail_from :: string
  replyTo :: "string option"
  mail_to :: string
  subject :: string
  mail_text :: "string option"
  mail_html :: "string option"

record info =
  messageId :: string
  smtp_response :: string

text \<open>
  \<^verbatim>\<open>await transporter.sendMail(mailOptions)\<close> either yields an \<^verbatim>\<open>info\<close> object or throws.
  The transport is outside the program: each request is served against the answer the
  transport gives to the message handed to it.
\<close>

datatype send_result = Sent info | Rejected js_error

type_synonym transport = "mail \<Rightarrow> send_result"

subsection \<open>The server's state\<close>

datatype console_entry =
    Missing_fields
  | Email_sent info
  | Email_sent_id string
  | Error_sending_email js_error
  | Error_sending_email_message string

text \<open>
  \<open>hits\<close> is the limiter's store (per key, the hits of the current window and the time
  at which that window started), \<open>outbox\<close> the arguments of the calls of
  \<^verbatim>\<open>transporter.sendMail\<close> so far, \<open>console\<close> what was written with \<^verbatim>\<open>console.log\<close> and
  \<^verbatim>\<open>console.error\<close>.
\<close>

record server_state =
  hits :: "string \<rightharpoonup> (nat \<times> nat)"
  outbox :: "mail list"
  console :: "console_entry list"

subsection \<open>The Origin Gate (lines 11 to 23 and 96, 106 to 116)\<close>

definition allowedOrigins_simple :: "env \<Rightarrow> string list" where
  "allowedOrigins_simple e = split_on CHR '','' (CORS e)"

definition allowedOrigins_validated :: "env \<Rightarrow> string list" where
  "allowedOrigins_validated e = map trim (split_on CHR '','' (CORS e))"

definition cors_error :: js_error where
  "cors_error = \<lparr>err_message = ''Not allowed by CORS'', err_props = []\<rparr>"

text \<open>
  The \<^verbatim>\<open>origin\<close> callback given to \<^verbatim>\<open>cors\<close>: \<open>Inr True\<close> is \<^verbatim>\<open>callback(null, true)\<close>,
  \<open>Inl\<close> is \<^verbatim>\<open>callback(new Error(...))\<close>, which \<^verbatim>\<open>cors\<close> hands to \<^verbatim>\<open>next\<close>, so that no
  later middleware and no route runs.
\<close>

definition array_includes :: "string list \<Rightarrow> string option \<Rightarrow> bool" where
  "array_includes xs v = (case v of None \<Rightarrow> False | Some s \<Rightarrow> s \<in> set xs)"

definition origin_callback :: "string list \<Rightarrow> string option \<Rightarrow> js_error + bool" where
  "origin_callback allowedOrigins og =
     (if falsy og \<or> array_includes allowedOrigins og then Inr True else Inl cors_error)"

subsection \<open>The simple variant (lines 46 to 77)\<close>

definition mailOptions_simple :: "env \<Rightarrow> submission \<Rightarrow> mail" where
  "mailOptions_simple e b =
     \<lparr>mail_from = EMAIL_USER e,
      replyTo = email b,
      mail_to = EMAIL_TO e,
      subject = ''New Contact Form Submission from '' @ interpolate (name b),
      mail_text = Some (''Name: '' @ interpolate (name b) @ newline @
                        ''Email: '' @ interpolate (email b) @ newline @
                        ''Message: '' @ interpolate (message b)),
      mail_html = None\<rparr>"

definition connect_simple ::
  "env \<Rightarrow> transport \<Rightarrow> server_state \<Rightarrow> submission \<Rightarrow> response \<times> server_state" where
  "connect_simple e sendMail st b =
     (if falsy (name b) \<or> falsy (email b) \<or> falsy (message b) then
        (\<lparr>status = 400, body = Json (JObj [(''message'', JStr ''All fields are required'')])\<rparr>,
         st\<lparr>console := console st @ [Missing_fields]\<rparr>)
      else
        let mailOptions = mailOptions_simple e b;
            st1 = st\<lparr>outbox := outbox st @ [mailOptions]\<rparr>
        in case sendMail mailOptions of
             Sent i \<Rightarrow>
               (\<lparr>status = 200, body = Json (JObj [(''message'', JStr ''Message sent successfully!'')])\<rparr>,
                st1\<lparr>console := console st1 @ [Email_sent i]\<rparr>)
           | Rejected error \<Rightarrow>
               (\<lparr>status = 500,
                 body = Json (JObj [(''message'', JStr ''Error sending message''),
                                    (''error'', json_of_error error)])\<rparr>,
                st1\<lparr>console := console st1 @ [Error_sending_email error]\<rparr>))"

text \<open>
  The application: \<^verbatim>\<open>cors\<close>, then \<^verbatim>\<open>express.json()\<close>, then the routes. \<open>Inl\<close> is an
  error passed to \<^verbatim>\<open>next\<close>, which Express answers itself.
\<close>

definition app_simple ::
  "env \<Rightarrow> transport \<Rightarrow> server_state \<Rightarrow> request \<Rightarrow> (js_error + response) \<times> server_state" where
  "app_simple e sendMail st req =
     (case origin_callback (allowedOrigins_simple e) (origin req) of
        Inl err \<Rightarrow> (Inl err, st)
      | Inr _ \<Rightarrow>
          (case route req of
             GET_root \<Rightarrow> (Inr \<lparr>status = 200, body = Text ''Contact form API is running!''\<rparr>, st)
           | POST_connect \<Rightarrow>
               (case connect_simple e sendMail st (payload req) of (res, st') \<Rightarrow> (Inr res, st'))
           | Other_route \<Rightarrow> (Inr \<lparr>status = 404, body = Not_found\<rparr>, st)))"

subsection \<open>The validated variant (lines 96 to 190)\<close>

text \<open>
  The functions of the packages the validated variant configures and whose code is not
  part of the repository: \<open>isEmail\<close> and \<open>normalizeEmail\<close> of express-validator, and
  the function that express-sanitize-middleware applies to a field.
\<close>

record libs =
  isEmail :: "string \<Rightarrow> bool"
  normalizeEmail :: "string \<Rightarrow> string"
  sanitizer :: "string \<Rightarrow> string"

text \<open>
  Lines 99 to 103: the sanitising middleware, as its configuration and the comment of
  line 98 intend it: it rewrites the fields \<^verbatim>\<open>name\<close>, \<^verbatim>\<open>email\<close> and \<^verbatim>\<open>message\<close> of
  \<^verbatim>\<open>req.body\<close>, where they exist. The application only ever runs it on a body that is
  \<^verbatim>\<open>undefined\<close>, where it has nothing to rewrite.
\<close>

definition sanitize :: "libs \<Rightarrow> submission option \<Rightarrow> submission option" where
  "sanitize L req_body =
     map_option (\<lambda>b. \<lparr>name = map_option (sanitizer L) (name b),
                        email = map_option (sanitizer L) (email b),
                        message = map_option (sanitizer L) (message b)\<rparr>) req_body"

text \<open>Line 125: \<^verbatim>\<open>express.json()\<close> parses the payload and stores it as \<^verbatim>\<open>req.body\<close>.\<close>

definition express_json :: "request \<Rightarrow> submission option \<Rightarrow> submission option" where
  "express_json req req_body = Some (payload req)"

text \<open>Lines 119 to 123: the limiter's configuration.\<close>

definition windowMs :: nat where
  "windowMs = 15 * 60 * 1000"

definition max_hits :: nat where
  "max_hits = 10"

definition throttle_response :: response where
  "throttle_response =
     \<lparr>status = 429, body = Text ''Too many requests, please try again after 15 minutes.''\<rparr>"

text \<open>
  Modelled from the spec: the store of \<^verbatim>\<open>rateLimit\<close> (package express-rate-limit, whose
  code is not part of the repository), after section 4.2 and the data model's
  RateLimitWindow: a counter and the start of the window per client identity, created
  on the identity's first request and started anew once the window of \<open>windowMs\<close>
  milliseconds has elapsed. \<open>current_hits\<close> is the count of the identity's window that
  is running at \<open>now\<close>, 0 when none is.
\<close>

definition current_hits :: "server_state \<Rightarrow> string \<Rightarrow> nat \<Rightarrow> nat" where
  "current_hits st key now =
     (case hits st key of
        None \<Rightarrow> 0
      | Some (n, start) \<Rightarrow> if now < start + windowMs then n else 0)"

text \<open>
  Modelled from the spec: the start of the window a request made at \<open>now\<close> falls into,
  which is the running window's start, or \<open>now\<close> when no window is running (section 4.2:
  windows are aligned to the identity's first request).
\<close>

definition window_start :: "server_state \<Rightarrow> string \<Rightarrow> nat \<Rightarrow> nat" where
  "window_start st key now =
     (case hits st key of
        None \<Rightarrow> now
      | Some (n, start) \<Rightarrow> if now < start + windowMs then start else now)"

text \<open>
  Modelled from the spec: the limiter of \<^verbatim>\<open>rateLimit\<close> (section 4.2). It counts the
  request in the identity's window and rejects it once the identity exceeds \<open>max_hits\<close>
  requests inside that window. The result says whether the request is rejected.
\<close>

definition apiLimiter :: "server_state \<Rightarrow> string \<Rightarrow> nat \<Rightarrow> bool \<times> server_state" where
  "apiLimiter st key now =
     (let n = current_hits st key now + 1
      in (max_hits < n, st\<lparr>hits := (hits st)(key \<mapsto> (n, window_start st key now))\<rparr>))"

text \<open>
  Lines 153 to 158: the validation chains of express-validator. \<^verbatim>\<open>check(field)\<close> reads the
  field in \<^verbatim>\<open>req.body\<close>, \<^verbatim>\<open>req.cookies\<close>, \<^verbatim>\<open>req.headers\<close>, \<^verbatim>\<open>req.params\<close> and
  \<^verbatim>\<open>req.query\<close>, in this order. The application parses no cookies and the route has no
  parameter, so these two locations never carry the field.
\<close>

datatype location = Body | Cookies | Headers | Params | Query

definition location_name :: "location \<Rightarrow> string" where
  "location_name l =
     (case l of Body \<Rightarrow> ''body'' | Cookies \<Rightarrow> ''cookies'' | Headers \<Rightarrow> ''headers''
      | Params \<Rightarrow> ''params'' | Query \<Rightarrow> ''query'')"

definition field_instances ::
  "request \<Rightarrow> submission option \<Rightarrow> (submission \<Rightarrow> string option) \<Rightarrow>
     (location \<times> string option) list" where
  "field_instances req req_body f =
     [(Body, Option.bind req_body f), (Cookies, None), (Headers, f (headers req)),
      (Params, None), (Query, f (query req))]"

text \<open>
  A chain runs on the locations that carry the field; when none does, it runs on the
  first location, the body, where the field is \<^verbatim>\<open>undefined\<close>.
\<close>

definition selected :: "(location \<times> string option) list \<Rightarrow> (location \<times> string option) list" where
  "selected xs =
     (let withValue = filter (\<lambda>(l, v). v \<noteq> None) xs
      in if withValue = [] then take 1 xs else withValue)"

text \<open>
  An entry of \<^verbatim>\<open>validationResult(req).array()\<close>: \<^verbatim>\<open>{type: "field", value, msg, path,
  location}\<close>; \<open>error_value\<close> is its \<^verbatim>\<open>value\<close>, which \<^verbatim>\<open>res.json\<close> leaves out when it is
  \<^verbatim>\<open>undefined\<close>.
\<close>

record verror =
  error_value :: "string option"
  msg :: string
  path :: string
  location :: location

definition json_of_verror :: "verror \<Rightarrow> jvalue" where
  "json_of_verror err =
     JObj ([(''type'', JStr ''field'')] @
           (case error_value err of None \<Rightarrow> [] | Some v \<Rightarrow> [(''value'', JStr v)]) @
           [(''msg'', JStr (msg err)), (''path'', JStr (path err)),
            (''location'', JStr (location_name (location err)))])"

text \<open>A validator or sanitizer reads a value that is \<^verbatim>\<open>undefined\<close> as the empty string.\<close>

definition to_string :: "string option \<Rightarrow> string" where
  "to_string v = (case v of None \<Rightarrow> [] | Some s \<Rightarrow> s)"

text \<open>
  \<^verbatim>\<open>check(p).trim().notEmpty().withMessage(m)\<close> on the selected instances of a field: an
  entry for every instance that is empty once trimmed, with the trimmed value.
\<close>

definition trim_notEmpty ::
  "string \<Rightarrow> string \<Rightarrow> (location \<times> string option) list \<Rightarrow> verror list" where
  "trim_notEmpty p m xs =
     concat (map (\<lambda>(l, v).
       if trim (to_string v) = []
       then [\<lparr>error_value = Some (trim (to_string v)), msg = m, path = p, location = l\<rparr>]
       else []) xs)"

text \<open>
  \<^verbatim>\<open>check(p).isEmail().normalizeEmail().withMessage(m)\<close>: an entry for every selected
  instance that \<^verbatim>\<open>isEmail\<close> refuses, with the value as it came; \<^verbatim>\<open>withMessage\<close> names the
  message of the chain's validator.
\<close>

definition isEmail_normalizeEmail ::
  "libs \<Rightarrow> string \<Rightarrow> string \<Rightarrow> (location \<times> string option) list \<Rightarrow> verror list" where
  "isEmail_normalizeEmail L p m xs =
     concat (map (\<lambda>(l, v).
       if isEmail L (to_string v) then []
       else [\<lparr>error_value = v, msg = m, path = p, location = l\<rparr>]) xs)"

text \<open>
  A chain's sanitizer writes its result back to the location it ran on: the field of
  \<^verbatim>\<open>req.body\<close> is rewritten when the body is among the selected instances, and is left
  as it is otherwise.
\<close>

definition written_back ::
  "(string \<Rightarrow> string) \<Rightarrow> (location \<times> string option) list \<Rightarrow> string option \<Rightarrow> string option" where
  "written_back san xs v = (if (Body, v) \<in> set xs then Some (san (to_string v)) else v)"

text \<open>
  The three chains, in the order of lines 155 to 157: what
  \<^verbatim>\<open>validationResult(req).array()\<close> lists, and \<^verbatim>\<open>req.body\<close> as the chains leave it.
\<close>

definition validators ::
  "libs \<Rightarrow> request \<Rightarrow> submission option \<Rightarrow> verror list \<times> submission" where
  "validators L req req_body =
     (let ns = selected (field_instances req req_body name);
          es = selected (field_instances req req_body email);
          ms = selected (field_instances req req_body message)
      in (trim_notEmpty ''name'' ''Name is required.'' ns @
          isEmail_normalizeEmail L ''email'' ''A valid email is required.'' es @
          trim_notEmpty ''message'' ''Message is required.'' ms,
          \<lparr>name = written_back trim ns (Option.bind req_body name),
           email = written_back (normalizeEmail L) es (Option.bind req_body email),
           message = written_back trim ms (Option.bind req_body message)\<rparr>))"

text \<open>Lines 159 to 189: the route's handler, given the validators' result.\<close>

definition mailOptions_validated :: "env \<Rightarrow> submission \<Rightarrow> mail" where
  "mailOptions_validated e b =
     \<lparr>mail_from = dquote @ interpolate (name b) @ dquote @ '' <'' @ EMAIL_USER e @ ''>'',
      replyTo = email b,
      mail_to = EMAIL_TO e,
      subject = ''New Contact Form Submission from '' @ interpolate (name b),
      mail_text = None,
      mail_html = Some (newline @
        ''        <p><strong>Name:</strong> '' @ interpolate (name b) @ ''</p>'' @ newline @
        ''        <p><strong>Email:</strong> '' @ interpolate (email b) @ ''</p>'' @ newline @
        ''        <p><strong>Message:</strong> '' @ interpolate (message b) @ ''</p>'' @ newline @
        ''      '')\<rparr>"

definition connect_validated ::
  "env \<Rightarrow> transport \<Rightarrow> server_state \<Rightarrow> verror list \<Rightarrow> submission \<Rightarrow> response \<times> server_state" where
  "connect_validated e sendMail st errors b =
     (if errors \<noteq> [] then
        (\<lparr>status = 400, body = Json (JObj [(''errors'', JArr (map json_of_verror errors))])\<rparr>, st)
      else
        let mailOptions = mailOptions_validated e b;
            st1 = st\<lparr>outbox := outbox st @ [mailOptions]\<rparr>
        in case sendMail mailOptions of
             Sent i \<Rightarrow>
               (\<lparr>status = 200, body = Json (JObj [(''message'', JStr ''Message sent successfully!'')])\<rparr>,
                st1\<lparr>console := console st1 @ [Email_sent_id (messageId i)]\<rparr>)
           | Rejected error \<Rightarrow>
               (\<lparr>status = 500,
                 body = Json (JObj [(''message'', JStr ''Internal server error. Please try again later.'')])\<rparr>,
                st1\<lparr>console := console st1 @ [Error_sending_email_message (err_message error)]\<rparr>))"

text \<open>
  Lines 150 to 190: the route \<^verbatim>\<open>POST /connect\<close> runs the limiter, then the validation
  chains, then the handler. The limiter's key is \<^verbatim>\<open>req.ip\<close>.
\<close>

definition post_connect ::
  "env \<Rightarrow> libs \<Rightarrow> transport \<Rightarrow> server_state \<Rightarrow> request \<Rightarrow> submission option \<Rightarrow>
     response \<times> server_state" where
  "post_connect e L sendMail st req req_body =
     (case apiLimiter st (ip req) (arrival req) of
        (limited, st1) \<Rightarrow>
          if limited then (throttle_response, st1)
          else (case validators L req req_body of
                  (errors, b) \<Rightarrow> connect_validated e sendMail st1 errors b))"

text \<open>
  The application, in the order of registration: the sanitising middleware (line 99),
  \<^verbatim>\<open>cors\<close> (line 106), \<^verbatim>\<open>express.json()\<close> (line 125), then the routes.
  \<^verbatim>\<open>req.body\<close> is \<^verbatim>\<open>undefined\<close> when the request comes in.
\<close>

definition app_validated ::
  "env \<Rightarrow> libs \<Rightarrow> transport \<Rightarrow> server_state \<Rightarrow> request \<Rightarrow> (js_error + response) \<times> server_state" where
  "app_validated e L sendMail st req =
     (let body0 = sanitize L None
      in case origin_callback (allowedOrigins_validated e) (origin req) of
           Inl err \<Rightarrow> (Inl err, st)
         | Inr _ \<Rightarrow>
             (let body1 = express_json req body0
              in case route req of
                   GET_root \<Rightarrow> (Inr \<lparr>status = 200, body = Text ''Contact form API is running!''\<rparr>, st)
                 | POST_connect \<Rightarrow>
                     (case post_connect e L sendMail st req body1 of (res, st') \<Rightarrow> (Inr res, st'))
                 | Other_route \<Rightarrow> (Inr \<lparr>status = 404, body = Not_found\<rparr>, st)))"

subsection \<open>Serving a sequence of requests\<close>

text \<open>
  The event loop serves the requests one after the other; each is paired with the
  transport's behaviour at the time it is served.
\<close>

fun run_simple ::
  "env \<Rightarrow> server_state \<Rightarrow> (request \<times> transport) list \<Rightarrow> (js_error + response) list \<times> server_state" where
  "run_simple e st [] = ([], st)"
| "run_simple e st ((req, sendMail) # rs) =
     (case app_simple e sendMail st req of
        (res, st1) \<Rightarrow> (case run_simple e st1 rs of (ress, st2) \<Rightarrow> (res # ress, st2)))"

fun run_validated ::
  "env \<Rightarrow> libs \<Rightarrow> server_state \<Rightarrow> (request \<times> transport) list \<Rightarrow> (js_error + response) list \<times> server_state" where
  "run_validated e L st [] = ([], st)"
| "run_validated e L st ((req, sendMail) # rs) =
     (case app_validated e L sendMail st req of
        (res, st1) \<Rightarrow> (case run_validated e L st1 rs of (ress, st2) \<Rightarrow> (res # ress, st2)))"

text \<open>
  The requests of the client \<open>key\<close> that reach the limiter of the validated variant: the
  \<^verbatim>\<open>POST /connect\<close> requests that \<^verbatim>\<open>cors\<close>, registered before the route, lets in.
\<close>

definition reaches_limiter :: "env \<Rightarrow> string \<Rightarrow> request \<Rightarrow> bool" where
  "reaches_limiter e key req =
     (ip req = key \<and> route req = POST_connect \<and>
      origin_callback (allowedOrigins_validated e) (origin req) = Inr True)"

subsection \<open>Concrete inputs\<close>

text \<open>
  The state of a process that has just started, and the inputs of the scenarios used
  below: a configuration, stand-ins for the library functions and for the transport,
  and the submission of end-to-end scenario 1.
\<close>

definition initial_state :: server_state where
  "initial_state = \<lparr>hits = Map.empty, outbox = [], console = []\<rparr>"

definition demo_env :: env where
  "demo_env = \<lparr>CORS = ''http://a.test, http://b.test'',
                EMAIL_USER = ''owner@mail.test'',
                EMAIL_TO = ''inbox@mail.test''\<rparr>"

definition demo_libs :: libs where
  "demo_libs = \<lparr>isEmail = (\<lambda>s. CHR ''@'' \<in> set s),
                 normalizeEmail = (\<lambda>s. s),
                 sanitizer = (\<lambda>s. s)\<rparr>"

definition alice :: submission where
  "alice = \<lparr>name = Some ''Alice'', email = Some ''alice@example.com'', message = Some ''Hello''\<rparr>"

definition nothing :: submission where
  "nothing = \<lparr>name = None, email = None, message = None\<rparr>"

definition post :: "submission \<Rightarrow> request" where
  "post b = \<lparr>ip = ''203.0.113.7'', origin = Some ''http://a.test'', route = POST_connect,
             payload = b, headers = nothing, query = nothing, arrival = 0\<rparr>"

definition transport_ok :: transport where
  "transport_ok = (\<lambda>m. Sent \<lparr>messageId = ''<1@mail.test>'', smtp_response = ''250 OK''\<rparr>)"

text \<open>An authentication failure as Nodemailer reports it.\<close>

definition eauth :: js_error where
  "eauth = \<lparr>err_message = ''Invalid login'',
             err_props = [(''code'', ''EAUTH''),
                          (''response'', ''535 Authentication failed''),
                          (''command'', ''AUTH PLAIN'')]\<rparr>"

definition transport_down :: transport where
  "transport_down = (\<lambda>m. Rejected eauth)"

section \<open>Properties\<close>

lemmas pipeline_defs =
  app_simple_def app_validated_def post_connect_def connect_simple_def connect_validated_def
  mailOptions_simple_def mailOptions_validated_def validators_def origin_callback_def
  allowedOrigins_simple_def allowedOrigins_validated_def apiLimiter_def current_hits_def
  window_start_def express_json_def sanitize_def falsy_def array_includes_def to_string_def
  interpolate_def json_of_error_def
  json_of_verror_def location_name_def field_instances_def selected_def trim_notEmpty_def
  isEmail_normalizeEmail_def written_back_def
  throttle_response_def max_hits_def windowMs_def newline_def dquote_def cors_error_def

lemmas input_defs =
  initial_state_def demo_env_def demo_libs_def alice_def nothing_def post_def transport_ok_def
  transport_down_def eauth_def

lemmas trim_defs = trim_def strip.simps leading_def white_space_def

subsection \<open>Auxiliary facts\<close>

text \<open>The strings of the concrete inputs, trimmed.\<close>

lemma trim_inputs:
  "trim [] = []" "trim '' '' = []" "trim ''  '' = []" "trim ''   '' = []"
  "trim ''Alice'' = ''Alice''" "trim ''Hello'' = ''Hello''" "trim ''Bob'' = ''Bob''"
  "trim ''<script>alert(1)</script>'' = ''<script>alert(1)</script>''"
  "trim ''http://a.test'' = ''http://a.test''" "trim '' http://b.test'' = ''http://b.test''"
  by (simp_all add: trim_defs)

text \<open>
  The origin callback answers \<^verbatim>\<open>true\<close> or the CORS error, and nothing else.
\<close>

lemma origin_callback_Inr:
  "(origin_callback xs og = Inr True) =
     (og = None \<or> og = Some [] \<or> (\<exists>s. og = Some s \<and> s \<in> set xs))"
  by (auto simp: origin_callback_def falsy_def array_includes_def split: option.splits)

lemma origin_callback_cases:
  "origin_callback xs og = Inr True \<or> origin_callback xs og = Inl cors_error"
  by (simp add: origin_callback_def)

lemma origin_callback_Inl:
  "(origin_callback xs og = Inl err) =
     (err = cors_error \<and> \<not> (og = None \<or> og = Some [] \<or> (\<exists>s. og = Some s \<and> s \<in> set xs)))"
  by (auto simp: origin_callback_def falsy_def array_includes_def split: option.splits)

text \<open>
  The applications on \<^verbatim>\<open>POST /connect\<close>, once the origin callback has let the request in.
\<close>

lemma app_simple_post:
  "origin_callback (allowedOrigins_simple e) (origin req) = Inr True \<Longrightarrow> route req = POST_connect \<Longrightarrow>
   app_simple e sendMail st req =
     (Inr (fst (connect_simple e sendMail st (payload req))), snd (connect_simple e sendMail st (payload req)))"
  by (simp add: app_simple_def split: prod.splits)

lemma post_connect_unfold:
  "post_connect e L sendMail st req req_body =
     (if fst (apiLimiter st (ip req) (arrival req)) then
        (throttle_response, snd (apiLimiter st (ip req) (arrival req)))
      else connect_validated e sendMail (snd (apiLimiter st (ip req) (arrival req)))
             (fst (validators L req req_body)) (snd (validators L req req_body)))"
  by (simp add: post_connect_def split: prod.splits)

lemma app_validated_post:
  "origin_callback (allowedOrigins_validated e) (origin req) = Inr True \<Longrightarrow> route req = POST_connect \<Longrightarrow>
   app_validated e L sendMail st req =
     (Inr (fst (post_connect e L sendMail st req (Some (payload req)))),
      snd (post_connect e L sendMail st req (Some (payload req))))"
  by (simp add: app_validated_def Let_def express_json_def split: prod.splits)

text \<open>
  The limiter: what it answers, and what it leaves in the store.
\<close>

lemma apiLimiter_fst: "fst (apiLimiter st key now) = (max_hits < current_hits st key now + 1)"
  by (simp add: apiLimiter_def Let_def)

lemma apiLimiter_snd:
  "snd (apiLimiter st key now) =
     st\<lparr>hits := (hits st)(key \<mapsto> (current_hits st key now + 1, window_start st key now))\<rparr>"
  by (simp add: apiLimiter_def Let_def)

lemma window_start_running: "now < window_start st key now + windowMs"
  by (simp add: window_start_def windowMs_def split: option.splits)

lemma current_hits_apiLimiter:
  "current_hits (snd (apiLimiter st key now)) key now = current_hits st key now + 1"
  by (simp add: apiLimiter_snd current_hits_def window_start_running)

lemma current_hits_cong: "hits st' = hits st \<Longrightarrow> current_hits st' key now = current_hits st key now"
  by (simp add: current_hits_def)

lemma outbox_apiLimiter: "outbox (snd (apiLimiter st key now)) = outbox st"
  by (simp add: apiLimiter_snd)

lemma console_apiLimiter: "console (snd (apiLimiter st key now)) = console st"
  by (simp add: apiLimiter_snd)

text \<open>
  The handlers: their effect on the store and on the outbox, and their status codes.
\<close>

lemma hits_connect_validated: "hits (snd (connect_validated e sendMail st errors b)) = hits st"
  by (simp add: connect_validated_def Let_def split: send_result.splits)

lemma outbox_connect_validated:
  "outbox (snd (connect_validated e sendMail st errors b)) =
     (if errors = [] then outbox st @ [mailOptions_validated e b] else outbox st)"
  by (simp add: connect_validated_def Let_def split: send_result.splits)

lemma outbox_connect_simple:
  "outbox (snd (connect_simple e sendMail st b)) =
     (if falsy (name b) \<or> falsy (email b) \<or> falsy (message b) then outbox st
      else outbox st @ [mailOptions_simple e b])"
  by (simp add: connect_simple_def Let_def split: send_result.splits)

lemma status_connect_validated:
  "status (fst (connect_validated e sendMail st errors b)) =
     (if errors \<noteq> [] then 400
      else case sendMail (mailOptions_validated e b) of Sent i \<Rightarrow> 200 | Rejected err \<Rightarrow> 500)"
  by (simp add: connect_validated_def Let_def split: send_result.splits)

lemma connect_validated_invalid:
  "errors \<noteq> [] \<Longrightarrow>
   connect_validated e sendMail st errors b =
     (\<lparr>status = 400, body = Json (JObj [(''errors'', JArr (map json_of_verror errors))])\<rparr>, st)"
  by (simp add: connect_validated_def)

lemma not_throttle_connect_validated:
  "fst (connect_validated e sendMail st errors b) \<noteq> throttle_response"
proof
  assume "fst (connect_validated e sendMail st errors b) = throttle_response"
  then have "status (fst (connect_validated e sendMail st errors b)) = 429"
    by (simp add: throttle_response_def)
  then show False
    by (simp add: status_connect_validated split: if_splits send_result.splits)
qed

text \<open>
  The validation chains: when the body's instance of a field is among those a chain
  runs on, what the chains write back to a field the body carries, and the entry they
  report for a field that fails in the body.
\<close>

lemma body_selected:
  "((Body, f b) \<in> set (selected (field_instances req (Some b) f))) =
     (f b \<noteq> None \<or> (f (headers req) = None \<and> f (query req) = None))"
  by (auto simp: selected_def field_instances_def Let_def)

lemma written_back_present:
  "f b = Some v \<Longrightarrow>
   written_back san (selected (field_instances req (Some b) f)) (f b) = Some (san v)"
  using body_selected [of f b req] by (simp add: written_back_def to_string_def)

lemma validators_name_present:
  "name b = Some n \<Longrightarrow> name (snd (validators L req (Some b))) = Some (trim n)"
  using written_back_present [of name b n trim req] by (simp add: validators_def Let_def)

lemma validators_email_present:
  "email b = Some em \<Longrightarrow> email (snd (validators L req (Some b))) = Some (normalizeEmail L em)"
  using written_back_present [of email b em "normalizeEmail L" req]
  by (simp add: validators_def Let_def)

lemma validators_message_present:
  "message b = Some m \<Longrightarrow> message (snd (validators L req (Some b))) = Some (trim m)"
  using written_back_present [of message b m trim req] by (simp add: validators_def Let_def)

lemma trim_notEmpty_entry:
  "(Body, v) \<in> set xs \<Longrightarrow> trim (to_string v) = [] \<Longrightarrow>
   \<lparr>error_value = Some [], msg = m, path = p, location = Body\<rparr> \<in> set (trim_notEmpty p m xs)"
  by (force simp: trim_notEmpty_def)

lemma isEmail_normalizeEmail_entry:
  "(Body, v) \<in> set xs \<Longrightarrow> \<not> isEmail L (to_string v) \<Longrightarrow>
   \<lparr>error_value = v, msg = m, path = p, location = Body\<rparr> \<in> set (isEmail_normalizeEmail L p m xs)"
  by (force simp: isEmail_normalizeEmail_def)

lemma validators_name_entry:
  assumes "name b \<noteq> None \<or> (name (headers req) = None \<and> name (query req) = None)"
    and "trim (to_string (name b)) = []"
  shows "\<lparr>error_value = Some [], msg = ''Name is required.'', path = ''name'', location = Body\<rparr>
    \<in> set (fst (validators L req (Some b)))"
  using trim_notEmpty_entry [OF body_selected [THEN iffD2, OF assms(1)] assms(2)]
  by (simp add: validators_def Let_def)

lemma validators_message_entry:
  assumes "message b \<noteq> None \<or> (message (headers req) = None \<and> message (query req) = None)"
    and "trim (to_string (message b)) = []"
  shows "\<lparr>error_value = Some [], msg = ''Message is required.'', path = ''message'', location = Body\<rparr>
    \<in> set (fst (validators L req (Some b)))"
  using trim_notEmpty_entry [OF body_selected [THEN iffD2, OF assms(1)] assms(2)]
  by (simp add: validators_def Let_def)

lemma validators_email_entry:
  assumes "email b \<noteq> None \<or> (email (headers req) = None \<and> email (query req) = None)"
    and "\<not> isEmail L (to_string (email b))"
  shows "\<lparr>error_value = email b, msg = ''A valid email is required.'', path = ''email'',
      location = Body\<rparr>
    \<in> set (fst (validators L req (Some b)))"
  using isEmail_normalizeEmail_entry [OF body_selected [THEN iffD2, OF assms(1)] assms(2)]
  by (simp add: validators_def Let_def)

text \<open>
  A submission that fails validation: the response, and the outbox, which it never reaches.
\<close>

lemma outbox_app_validated_invalid:
  "fst (validators L req (Some (payload req))) \<noteq> [] \<Longrightarrow>
   outbox (snd (app_validated e L sendMail st req)) = outbox st"
  by (simp add: app_validated_def Let_def express_json_def post_connect_unfold
      outbox_connect_validated outbox_apiLimiter split_beta
      split: sum.splits route.splits)

lemma outbox_app_simple_invalid:
  "falsy (name (payload req)) \<or> falsy (email (payload req)) \<or> falsy (message (payload req)) \<Longrightarrow>
   outbox (snd (app_simple e sendMail st req)) = outbox st"
  by (simp add: app_simple_def outbox_connect_simple split_beta split: sum.splits route.splits)

lemma app_validated_invalid:
  "origin_callback (allowedOrigins_validated e) (origin req) = Inr True \<Longrightarrow>
   route req = POST_connect \<Longrightarrow>
   current_hits st (ip req) (arrival req) < max_hits \<Longrightarrow>
   fst (validators L req (Some (payload req))) \<noteq> [] \<Longrightarrow>
   fst (app_validated e L sendMail st req) =
     Inr \<lparr>status = 400,
          body = Json (JObj [(''errors'',
            JArr (map json_of_verror (fst (validators L req (Some (payload req))))))])\<rparr>"
  by (simp add: app_validated_post post_connect_unfold apiLimiter_fst connect_validated_invalid)

lemma app_simple_invalid:
  "origin_callback (allowedOrigins_simple e) (origin req) = Inr True \<Longrightarrow>
   route req = POST_connect \<Longrightarrow>
   falsy (name (payload req)) \<or> falsy (email (payload req)) \<or> falsy (message (payload req)) \<Longrightarrow>
   fst (app_simple e sendMail st req) =
     Inr \<lparr>status = 400, body = Json (JObj [(''message'', JStr ''All fields are required'')])\<rparr>"
  by (simp add: app_simple_post connect_simple_def)

text \<open>
  The limiter over a sequence of requests: the first request of a client's window and a
  request inside a running window; the response at a position of the sequence, and the
  state before it, in terms of the prefix served so far; a request that does not reach
  the limiter for a client leaves that client's window alone. By induction on the
  length of the prefix, the window of a client whose counted requests all fall into one
  window holds the number of those served so far. Requests that \<^verbatim>\<open>cors\<close> turns away
  change nothing, and the simple variant serves the same request any number of times.
\<close>

lemma app_validated_fresh:
  assumes "\<forall>n start. hits st (ip req) = Some (n, start) \<longrightarrow> start + windowMs \<le> arrival req"
    and "route req = POST_connect"
    and "origin_callback (allowedOrigins_validated e) (origin req) = Inr True"
  shows "hits (snd (app_validated e L sendMail st req)) (ip req) = Some (1, arrival req)"
    and "fst (app_validated e L sendMail st req) \<noteq> Inr throttle_response"
proof -
  have c: "current_hits st (ip req) (arrival req) = 0"
    "window_start st (ip req) (arrival req) = arrival req"
    using assms(1) by (auto simp: current_hits_def window_start_def split: option.splits)
  show "hits (snd (app_validated e L sendMail st req)) (ip req) = Some (1, arrival req)"
    using assms(2,3) c
    by (simp add: app_validated_post post_connect_unfold apiLimiter_snd hits_connect_validated)
  show "fst (app_validated e L sendMail st req) \<noteq> Inr throttle_response"
    using assms(2,3) c
    by (simp add: app_validated_post post_connect_unfold apiLimiter_fst max_hits_def
        not_throttle_connect_validated)
qed

lemma app_validated_live:
  assumes "hits st key = Some (k, T)" and "arrival req < T + windowMs" and "ip req = key"
    and "route req = POST_connect"
    and "origin_callback (allowedOrigins_validated e) (origin req) = Inr True"
  shows "hits (snd (app_validated e L sendMail st req)) key = Some (k + 1, T)"
    and "(fst (app_validated e L sendMail st req) = Inr throttle_response) = (max_hits \<le> k)"
    and "max_hits \<le> k \<Longrightarrow> outbox (snd (app_validated e L sendMail st req)) = outbox st"
proof -
  have c: "current_hits st key (arrival req) = k" "window_start st key (arrival req) = T"
    using assms(1,2) by (simp_all add: current_hits_def window_start_def)
  show "hits (snd (app_validated e L sendMail st req)) key = Some (k + 1, T)"
    using assms(3-5) c
    by (simp add: app_validated_post post_connect_unfold apiLimiter_snd hits_connect_validated)
  show "(fst (app_validated e L sendMail st req) = Inr throttle_response) = (max_hits \<le> k)"
    using assms(3-5) c
    by (auto simp: app_validated_post post_connect_unfold apiLimiter_fst not_throttle_connect_validated)
  show "max_hits \<le> k \<Longrightarrow> outbox (snd (app_validated e L sendMail st req)) = outbox st"
    using assms(3-5) c
    by (simp add: app_validated_post post_connect_unfold apiLimiter_fst outbox_apiLimiter)
qed

lemma run_validated_Cons:
  "run_validated e L st (x # rs) =
     (fst (app_validated e L (snd x) st (fst x)) #
        fst (run_validated e L (snd (app_validated e L (snd x) st (fst x))) rs),
      snd (run_validated e L (snd (app_validated e L (snd x) st (fst x))) rs))"
  by (cases x) (simp add: split_beta)

lemma run_validated_append:
  "run_validated e L st (xs @ ys) =
     (fst (run_validated e L st xs) @ fst (run_validated e L (snd (run_validated e L st xs)) ys),
      snd (run_validated e L (snd (run_validated e L st xs)) ys))"
  by (induction xs arbitrary: st) (simp_all add: run_validated_Cons)

lemma length_run_validated: "length (fst (run_validated e L st rs)) = length rs"
  by (induction rs arbitrary: st) (simp_all add: run_validated_Cons)

lemma run_validated_nth:
  assumes "i < length rs"
  shows "fst (run_validated e L st rs) ! i =
    fst (app_validated e L (snd (rs ! i)) (snd (run_validated e L st (take i rs))) (fst (rs ! i)))"
proof -
  have "rs = take i rs @ rs ! i # drop (Suc i) rs"
    using assms by (simp add: id_take_nth_drop)
  then have "fst (run_validated e L st rs) ! i =
      fst (run_validated e L st (take i rs @ rs ! i # drop (Suc i) rs)) ! i"
    by simp
  also have "\<dots> = fst (app_validated e L (snd (rs ! i)) (snd (run_validated e L st (take i rs))) (fst (rs ! i)))"
    using assms
    by (simp add: run_validated_append run_validated_Cons nth_append length_run_validated)
  finally show ?thesis .
qed

lemma run_validated_take_Suc:
  assumes "i < length rs"
  shows "snd (run_validated e L st (take (Suc i) rs)) =
    snd (app_validated e L (snd (rs ! i)) (snd (run_validated e L st (take i rs))) (fst (rs ! i)))"
  using assms by (simp add: take_Suc_conv_app_nth run_validated_append run_validated_Cons)

lemma hits_app_validated_other:
  "\<not> reaches_limiter e key req \<Longrightarrow>
   hits (snd (app_validated e L sendMail st req)) key = hits st key"
  using origin_callback_cases [of "allowedOrigins_validated e" "origin req"]
  by (auto simp: reaches_limiter_def app_validated_def Let_def post_connect_unfold apiLimiter_snd
      hits_connect_validated split_beta split: sum.splits route.splits)

lemma run_validated_rejected:
  "\<forall>x \<in> set rs. origin_callback (allowedOrigins_validated e) (origin (fst x)) = Inl cors_error \<Longrightarrow>
   run_validated e L st rs = (map (\<lambda>x. Inl cors_error) rs, st)"
  by (induction rs) (simp_all add: run_validated_Cons app_validated_def)

lemma run_simple_Cons:
  "run_simple e st (x # rs) =
     (fst (app_simple e (snd x) st (fst x)) #
        fst (run_simple e (snd (app_simple e (snd x) st (fst x))) rs),
      snd (run_simple e (snd (app_simple e (snd x) st (fst x))) rs))"
  by (cases x) (simp add: split_beta)

lemma run_simple_replicate:
  assumes "\<And>s. fst (app_simple e sendMail s req) = res"
    and "\<And>s. length (outbox (snd (app_simple e sendMail s req))) = Suc (length (outbox s))"
  shows "fst (run_simple e st (replicate n (req, sendMail))) = replicate n res \<and>
    length (outbox (snd (run_simple e st (replicate n (req, sendMail))))) = length (outbox st) + n"
  by (induction n arbitrary: st) (simp_all add: run_simple_Cons assms)

lemma run_validated_window:
  assumes all: "\<forall>x \<in> set rs. reaches_limiter e key (fst x) \<longrightarrow>
      t0 \<le> arrival (fst x) \<and> arrival (fst x) < t0 + windowMs"
    and fresh: "\<forall>n start. hits st key = Some (n, start) \<longrightarrow> start + windowMs \<le> t0"
    and i: "i \<le> length rs"
  shows "(length (filter (\<lambda>x. reaches_limiter e key (fst x)) (take i rs)) = 0 \<longrightarrow>
       (\<forall>n start. hits (snd (run_validated e L st (take i rs))) key = Some (n, start) \<longrightarrow>
          start + windowMs \<le> t0)) \<and>
     (0 < length (filter (\<lambda>x. reaches_limiter e key (fst x)) (take i rs)) \<longrightarrow>
       (\<exists>T. hits (snd (run_validated e L st (take i rs))) key =
          Some (length (filter (\<lambda>x. reaches_limiter e key (fst x)) (take i rs)), T) \<and> t0 \<le> T))"
  using i
proof (induction i)
  case 0
  then show ?case using fresh by simp
next
  case (Suc i)
  let ?c = "length (filter (\<lambda>x. reaches_limiter e key (fst x)) (take i rs))"
  let ?s = "snd (run_validated e L st (take i rs))"
  let ?x = "rs ! i"
  have i: "i < length rs" using Suc.prems by simp
  then have mem: "?x \<in> set rs" by simp
  note IH = Suc.IH [OF less_imp_le [OF i]]
  have next_state: "snd (run_validated e L st (take (Suc i) rs)) =
      snd (app_validated e L (snd ?x) ?s (fst ?x))"
    by (rule run_validated_take_Suc [OF i])
  have next_count: "length (filter (\<lambda>x. reaches_limiter e key (fst x)) (take (Suc i) rs)) =
      (if reaches_limiter e key (fst ?x) then ?c + 1 else ?c)"
    using i by (simp add: take_Suc_conv_app_nth)
  show ?case
  proof (cases "reaches_limiter e key (fst ?x)")
    case False
    then have "hits (snd (app_validated e L (snd ?x) ?s (fst ?x))) key = hits ?s key"
      by (rule hits_app_validated_other)
    with IH False show ?thesis
      by (simp add: next_state next_count)
  next
    case reached: True
    then have True: "ip (fst ?x) = key" and x12: "route (fst ?x) = POST_connect"
      "origin_callback (allowedOrigins_validated e) (origin (fst ?x)) = Inr True"
      by (simp_all add: reaches_limiter_def)
    from all mem reached have x34: "t0 \<le> arrival (fst ?x)" "arrival (fst ?x) < t0 + windowMs"
      by blast+
    note x = x12 x34
    show ?thesis
    proof (cases "?c = 0")
      case c: True
      with IH have "\<forall>n start. hits ?s key = Some (n, start) \<longrightarrow> start + windowMs \<le> t0"
        by blast
      with x(3) True have "\<forall>n start. hits ?s (ip (fst ?x)) = Some (n, start) \<longrightarrow>
          start + windowMs \<le> arrival (fst ?x)"
        by fastforce
      from app_validated_fresh(1) [OF this x(1) x(2), of L "snd ?x"] True
      have "hits (snd (app_validated e L (snd ?x) ?s (fst ?x))) key = Some (1, arrival (fst ?x))"
        by simp
      with c reached x(3) show ?thesis
        by (simp add: next_state next_count)
    next
      case c: False
      with IH obtain T where T: "hits ?s key = Some (?c, T)" "t0 \<le> T"
        by auto
      then have "arrival (fst ?x) < T + windowMs"
        using x(4) by simp
      from app_validated_live(1) [OF T(1) this True x(1) x(2), of L "snd ?x"]
      have "hits (snd (app_validated e L (snd ?x) ?s (fst ?x))) key = Some (?c + 1, T)" .
      with reached T(2) show ?thesis
        by (simp add: next_state next_count)
    qed
  qed
qed

text \<open>
  \<^verbatim>\<open>req.body\<close> is \<^verbatim>\<open>undefined\<close> when the sanitising middleware runs: it has nothing to
  rewrite.
\<close>

lemma sanitize_undefined: "sanitize L None = None"
  by (simp add: sanitize_def)

subsection \<open>Transport failures\<close>

text \<open>
  C1, on the simple variant. The claim: when the dispatch of a valid submission fails,
  the response is a 500 with a generic message, and no detail of the failure is in it.
  The simple variant (line 75) puts the caught error into the body: for the submission
  of scenario 1 and a transport that fails to authenticate, the caller reads the
  error's code, the server's reply and the SMTP command.
\<close>

theorem connect_simple_returns_transport_error:
  "fst (app_simple demo_env transport_down initial_state (post alice)) =
     Inr \<lparr>status = 500,
          body = Json (JObj [(''message'', JStr ''Error sending message''),
                             (''error'', JObj [(''code'', JStr ''EAUTH''),
                                               (''response'', JStr ''535 Authentication failed''),
                                               (''command'', JStr ''AUTH PLAIN'')])])\<rparr>"
  by (simp add: pipeline_defs input_defs trim_inputs)

text \<open>
  The validated variant, for comparison: when the dispatch of a submission that passed
  the limiter and the validation chains fails, the response is a 500 whose body is the
  generic message alone, whatever the error, and the error's message goes to the console.
\<close>

theorem validated_failure_is_generic:
  "origin_callback (allowedOrigins_validated e) (origin req) = Inr True \<and>
   route req = POST_connect \<and>
   current_hits st (ip req) (arrival req) < max_hits \<and>
   fst (validators L req (Some (payload req))) = [] \<and>
   sendMail (mailOptions_validated e (snd (validators L req (Some (payload req))))) = Rejected error \<longrightarrow>
     fst (app_validated e L sendMail st req) =
       Inr \<lparr>status = 500,
            body = Json (JObj [(''message'', JStr ''Internal server error. Please try again later.'')])\<rparr> \<and>
     console (snd (app_validated e L sendMail st req)) =
       console st @ [Error_sending_email_message (err_message error)]"
  by (simp add: app_validated_post post_connect_unfold apiLimiter_fst connect_validated_def
      console_apiLimiter Let_def)

text \<open>
  The same at scenario 1's submission, with a transport that fails to authenticate.
\<close>

theorem validated_failure_is_generic_witness:
  "fst (app_validated demo_env demo_libs transport_down initial_state (post alice)) =
     Inr \<lparr>status = 500,
          body = Json (JObj [(''message'', JStr ''Internal server error. Please try again later.'')])\<rparr> \<and>
   console (snd (app_validated demo_env demo_libs transport_down initial_state (post alice))) =
     [Error_sending_email_message ''Invalid login'']"
proof -
  have o: "origin_callback (allowedOrigins_validated demo_env) (origin (post alice)) = Inr True"
    by (simp add: pipeline_defs input_defs trim_inputs)
  have r: "route (post alice) = POST_connect"
    by (simp add: post_def)
  have l: "current_hits initial_state (ip (post alice)) (arrival (post alice)) < max_hits"
    by (simp add: pipeline_defs input_defs trim_inputs)
  have v: "fst (validators demo_libs (post alice) (Some (payload (post alice)))) = []"
    by (simp add: pipeline_defs input_defs trim_inputs)
  have t: "transport_down (mailOptions_validated demo_env
        (snd (validators demo_libs (post alice) (Some (payload (post alice)))))) = Rejected eauth"
    by (simp add: transport_down_def)
  have c: "console initial_state = []" "err_message eauth = ''Invalid login''"
    by (simp_all add: initial_state_def eauth_def)
  show ?thesis
    using validated_failure_is_generic [where e = demo_env and req = "post alice"
        and sendMail = transport_down and st = initial_state and L = demo_libs and error = eauth]
      o r l v t c
    by simp
qed

subsection \<open>The Origin Gate\<close>

text \<open>
  C5. In both variants a request gets past \<^verbatim>\<open>cors\<close> (the application answers with a
  response of its own) if and only if its origin is absent or is one of the allowed
  origins loaded from \<^verbatim>\<open>CORS\<close>; absent is how \<^verbatim>\<open>!origin\<close> reads it: no \<^verbatim>\<open>Origin\<close> header,
  or an empty one. Every other request ends with the error \<^verbatim>\<open>Not allowed by CORS\<close> handed
  to \<^verbatim>\<open>next\<close> and the state as it was: no route, no limiter, no validation and no
  dispatch has run.
\<close>

theorem origin_gate:
  "((\<exists>res. fst (app_simple e sendMail st req) = Inr res) =
      (origin req = None \<or> origin req = Some [] \<or>
       (\<exists>s. origin req = Some s \<and> s \<in> set (allowedOrigins_simple e)))) \<and>
   ((\<exists>res. fst (app_validated e L sendMail st req) = Inr res) =
      (origin req = None \<or> origin req = Some [] \<or>
       (\<exists>s. origin req = Some s \<and> s \<in> set (allowedOrigins_validated e)))) \<and>
   (\<not> (origin req = None \<or> origin req = Some [] \<or>
        (\<exists>s. origin req = Some s \<and> s \<in> set (allowedOrigins_simple e))) \<longrightarrow>
      app_simple e sendMail st req = (Inl cors_error, st)) \<and>
   (\<not> (origin req = None \<or> origin req = Some [] \<or>
        (\<exists>s. origin req = Some s \<and> s \<in> set (allowedOrigins_validated e))) \<longrightarrow>
      app_validated e L sendMail st req = (Inl cors_error, st))"
proof (intro conjI impI)
  show "(\<exists>res. fst (app_simple e sendMail st req) = Inr res) =
      (origin req = None \<or> origin req = Some [] \<or>
       (\<exists>s. origin req = Some s \<and> s \<in> set (allowedOrigins_simple e)))"
    using origin_callback_cases [of "allowedOrigins_simple e" "origin req"]
      origin_callback_Inr [of "allowedOrigins_simple e" "origin req"]
    by (auto simp: app_simple_def split: sum.splits route.splits prod.splits)
  show "(\<exists>res. fst (app_validated e L sendMail st req) = Inr res) =
      (origin req = None \<or> origin req = Some [] \<or>
       (\<exists>s. origin req = Some s \<and> s \<in> set (allowedOrigins_validated e)))"
    using origin_callback_cases [of "allowedOrigins_validated e" "origin req"]
      origin_callback_Inr [of "allowedOrigins_validated e" "origin req"]
    by (auto simp: app_validated_def Let_def split: sum.splits route.splits prod.splits)
next
  assume "\<not> (origin req = None \<or> origin req = Some [] \<or>
        (\<exists>s. origin req = Some s \<and> s \<in> set (allowedOrigins_simple e)))"
  then have "origin_callback (allowedOrigins_simple e) (origin req) = Inl cors_error"
    by (simp add: origin_callback_Inl)
  then show "app_simple e sendMail st req = (Inl cors_error, st)"
    by (simp add: app_simple_def)
next
  assume "\<not> (origin req = None \<or> origin req = Some [] \<or>
        (\<exists>s. origin req = Some s \<and> s \<in> set (allowedOrigins_validated e)))"
  then have "origin_callback (allowedOrigins_validated e) (origin req) = Inl cors_error"
    by (simp add: origin_callback_Inl)
  then show "app_validated e L sendMail st req = (Inl cors_error, st)"
    by (simp add: app_validated_def Let_def)
qed

text \<open>
  A request from an origin that is not allowed is turned away by both variants; a
  request without an origin is served.
\<close>

theorem origin_gate_witness:
  "app_simple demo_env transport_ok initial_state ((post alice)\<lparr>origin := Some ''http://evil.test''\<rparr>) =
     (Inl cors_error, initial_state) \<and>
   app_validated demo_env demo_libs transport_ok initial_state
       ((post alice)\<lparr>origin := Some ''http://evil.test''\<rparr>) =
     (Inl cors_error, initial_state) \<and>
   fst (app_simple demo_env transport_ok initial_state ((post alice)\<lparr>origin := None, route := GET_root\<rparr>)) =
     Inr \<lparr>status = 200, body = Text ''Contact form API is running!''\<rparr>"
proof -
  let ?req = "(post alice)\<lparr>origin := Some ''http://evil.test''\<rparr>"
  have a: "allowedOrigins_simple demo_env = [''http://a.test'', '' http://b.test'']"
    "allowedOrigins_validated demo_env = [''http://a.test'', ''http://b.test'']"
    by (simp_all add: pipeline_defs input_defs trim_inputs)
  have o: "origin ?req = Some ''http://evil.test''"
    by simp
  have g: "fst (app_simple demo_env transport_ok initial_state ((post alice)\<lparr>origin := None, route := GET_root\<rparr>)) =
     Inr \<lparr>status = 200, body = Text ''Contact form API is running!''\<rparr>"
    by (simp add: pipeline_defs input_defs trim_inputs)
  show ?thesis
    using origin_gate [where e = demo_env and req = ?req and sendMail = transport_ok
        and st = initial_state and L = demo_libs] a o g
    by simp
qed

subsection \<open>Successful dispatch\<close>

text \<open>
  C8. A valid submission that reaches the handler (allowed origin and, in the validated
  variant, within the limit) and whose dispatch succeeds is answered with 200 and the
  body \<^verbatim>\<open>{message: "Message sent successfully!"}\<close>. Valid is: the three fields are truthy
  (simple variant), the validation chains report no error (validated variant).
\<close>

theorem dispatch_success_response:
  "(origin_callback (allowedOrigins_simple e) (origin req) = Inr True \<and>
    route req = POST_connect \<and>
    \<not> falsy (name (payload req)) \<and> \<not> falsy (email (payload req)) \<and>
    \<not> falsy (message (payload req)) \<and>
    sendMail (mailOptions_simple e (payload req)) = Sent i \<longrightarrow>
      fst (app_simple e sendMail st req) =
        Inr \<lparr>status = 200, body = Json (JObj [(''message'', JStr ''Message sent successfully!'')])\<rparr>) \<and>
   (origin_callback (allowedOrigins_validated e) (origin req) = Inr True \<and>
    route req = POST_connect \<and>
    \<not> fst (apiLimiter st (ip req) (arrival req)) \<and>
    fst (validators L req (Some (payload req))) = [] \<and>
    sendMail (mailOptions_validated e (snd (validators L req (Some (payload req))))) = Sent i \<longrightarrow>
      fst (app_validated e L sendMail st req) =
        Inr \<lparr>status = 200, body = Json (JObj [(''message'', JStr ''Message sent successfully!'')])\<rparr>)"
proof (intro conjI impI)
  assume a: "origin_callback (allowedOrigins_simple e) (origin req) = Inr True \<and>
    route req = POST_connect \<and>
    \<not> falsy (name (payload req)) \<and> \<not> falsy (email (payload req)) \<and>
    \<not> falsy (message (payload req)) \<and>
    sendMail (mailOptions_simple e (payload req)) = Sent i"
  then have "fst (connect_simple e sendMail st (payload req)) =
      \<lparr>status = 200, body = Json (JObj [(''message'', JStr ''Message sent successfully!'')])\<rparr>"
    by (simp add: connect_simple_def Let_def)
  with a show "fst (app_simple e sendMail st req) =
      Inr \<lparr>status = 200, body = Json (JObj [(''message'', JStr ''Message sent successfully!'')])\<rparr>"
    by (simp add: app_simple_post)
next
  assume a: "origin_callback (allowedOrigins_validated e) (origin req) = Inr True \<and>
    route req = POST_connect \<and>
    \<not> fst (apiLimiter st (ip req) (arrival req)) \<and>
    fst (validators L req (Some (payload req))) = [] \<and>
    sendMail (mailOptions_validated e (snd (validators L req (Some (payload req))))) = Sent i"
  then show "fst (app_validated e L sendMail st req) =
      Inr \<lparr>status = 200, body = Json (JObj [(''message'', JStr ''Message sent successfully!'')])\<rparr>"
    by (simp add: app_validated_post post_connect_unfold connect_validated_def Let_def)
qed

text \<open>
  End-to-end scenario 1, in both variants.
\<close>

theorem dispatch_success_response_witness:
  "fst (app_simple demo_env transport_ok initial_state (post alice)) =
     Inr \<lparr>status = 200, body = Json (JObj [(''message'', JStr ''Message sent successfully!'')])\<rparr> \<and>
   fst (app_validated demo_env demo_libs transport_ok initial_state (post alice)) =
     Inr \<lparr>status = 200, body = Json (JObj [(''message'', JStr ''Message sent successfully!'')])\<rparr>"
proof -
  have o1: "origin_callback (allowedOrigins_simple demo_env) (origin (post alice)) = Inr True"
    by (simp add: pipeline_defs input_defs trim_inputs)
  have o2: "origin_callback (allowedOrigins_validated demo_env) (origin (post alice)) = Inr True"
    by (simp add: pipeline_defs input_defs trim_inputs)
  have r: "route (post alice) = POST_connect"
    by (simp add: post_def)
  have f: "\<not> falsy (name (payload (post alice))) \<and> \<not> falsy (email (payload (post alice))) \<and>
      \<not> falsy (message (payload (post alice)))"
    by (simp add: falsy_def input_defs)
  have l: "\<not> fst (apiLimiter initial_state (ip (post alice)) (arrival (post alice)))"
    by (simp add: pipeline_defs input_defs trim_inputs)
  have v: "fst (validators demo_libs (post alice) (Some (payload (post alice)))) = []"
    by (simp add: pipeline_defs input_defs trim_inputs)
  have s1: "transport_ok (mailOptions_simple demo_env (payload (post alice))) =
      Sent \<lparr>messageId = ''<1@mail.test>'', smtp_response = ''250 OK''\<rparr>"
    by (simp add: transport_ok_def)
  have s2: "transport_ok (mailOptions_validated demo_env
        (snd (validators demo_libs (post alice) (Some (payload (post alice)))))) =
      Sent \<lparr>messageId = ''<1@mail.test>'', smtp_response = ''250 OK''\<rparr>"
    by (simp add: transport_ok_def)
  show ?thesis
    using dispatch_success_response [where e = demo_env and req = "post alice"
        and sendMail = transport_ok and st = initial_state and L = demo_libs
        and i = "\<lparr>messageId = ''<1@mail.test>'', smtp_response = ''250 OK''\<rparr>"]
      o1 o2 r f l v s1 s2
    by simp
qed

subsection \<open>One dispatch per accepted request\<close>

text \<open>
  C9. An accepted request hands exactly one message to \<^verbatim>\<open>sendMail\<close>, whatever the
  transport answers: the outbox grows by that one message, so a failure is not retried.
  Two identical accepted submissions, served one after the other, hand over two
  messages, the same one twice: nothing is deduplicated.
\<close>

theorem one_dispatch_per_accepted_request:
  "(origin_callback (allowedOrigins_simple e) (origin req) = Inr True \<and>
    route req = POST_connect \<and>
    \<not> falsy (name (payload req)) \<and> \<not> falsy (email (payload req)) \<and>
    \<not> falsy (message (payload req)) \<longrightarrow>
      outbox (snd (app_simple e sendMail st req)) =
        outbox st @ [mailOptions_simple e (payload req)] \<and>
      outbox (snd (run_simple e st [(req, sendMail), (req, sendMail')])) =
        outbox st @ [mailOptions_simple e (payload req), mailOptions_simple e (payload req)]) \<and>
   (origin_callback (allowedOrigins_validated e) (origin req) = Inr True \<and>
    route req = POST_connect \<and>
    fst (validators L req (Some (payload req))) = [] \<and>
    current_hits st (ip req) (arrival req) < max_hits \<longrightarrow>
      outbox (snd (app_validated e L sendMail st req)) =
        outbox st @ [mailOptions_validated e (snd (validators L req (Some (payload req))))]) \<and>
   (origin_callback (allowedOrigins_validated e) (origin req) = Inr True \<and>
    route req = POST_connect \<and>
    fst (validators L req (Some (payload req))) = [] \<and>
    current_hits st (ip req) (arrival req) + 1 < max_hits \<longrightarrow>
      outbox (snd (run_validated e L st [(req, sendMail), (req, sendMail')])) =
        outbox st @ [mailOptions_validated e (snd (validators L req (Some (payload req)))),
                     mailOptions_validated e (snd (validators L req (Some (payload req))))])"
proof (intro conjI impI)
  assume a: "origin_callback (allowedOrigins_simple e) (origin req) = Inr True \<and>
    route req = POST_connect \<and>
    \<not> falsy (name (payload req)) \<and> \<not> falsy (email (payload req)) \<and>
    \<not> falsy (message (payload req))"
  then have step: "outbox (snd (app_simple e tr s req)) = outbox s @ [mailOptions_simple e (payload req)]"
    for tr s
    by (simp add: app_simple_post outbox_connect_simple)
  show "outbox (snd (app_simple e sendMail st req)) = outbox st @ [mailOptions_simple e (payload req)]"
    by (rule step)
  show "outbox (snd (run_simple e st [(req, sendMail), (req, sendMail')])) =
        outbox st @ [mailOptions_simple e (payload req), mailOptions_simple e (payload req)]"
    using step [of sendMail' "snd (app_simple e sendMail st req)"] step [of sendMail st]
    by (simp add: split_beta)
next
  assume a: "origin_callback (allowedOrigins_validated e) (origin req) = Inr True \<and>
    route req = POST_connect \<and>
    fst (validators L req (Some (payload req))) = [] \<and>
    current_hits st (ip req) (arrival req) < max_hits"
  then show "outbox (snd (app_validated e L sendMail st req)) =
        outbox st @ [mailOptions_validated e (snd (validators L req (Some (payload req))))]"
    by (simp add: app_validated_post post_connect_unfold apiLimiter_fst outbox_connect_validated outbox_apiLimiter)
next
  assume a: "origin_callback (allowedOrigins_validated e) (origin req) = Inr True \<and>
    route req = POST_connect \<and>
    fst (validators L req (Some (payload req))) = [] \<and>
    current_hits st (ip req) (arrival req) + 1 < max_hits"
  have step: "outbox (snd (app_validated e L tr s req)) =
      outbox s @ [mailOptions_validated e (snd (validators L req (Some (payload req))))]"
    if "current_hits s (ip req) (arrival req) < max_hits" for tr s
    using a that
    by (simp add: app_validated_post post_connect_unfold apiLimiter_fst outbox_connect_validated outbox_apiLimiter)
  have count: "current_hits (snd (app_validated e L sendMail st req)) (ip req) (arrival req) =
      current_hits st (ip req) (arrival req) + 1"
    using a
    by (simp add: app_validated_post post_connect_unfold apiLimiter_fst current_hits_apiLimiter
        current_hits_cong [OF hits_connect_validated])
  show "outbox (snd (run_validated e L st [(req, sendMail), (req, sendMail')])) =
        outbox st @ [mailOptions_validated e (snd (validators L req (Some (payload req)))),
                     mailOptions_validated e (snd (validators L req (Some (payload req))))]"
    using step [of "snd (app_validated e L sendMail st req)" sendMail'] step [of st sendMail] count a
    by (simp add: split_beta)
qed

text \<open>
  Scenario 1's submission, once with a failing transport and twice in a row.
\<close>

theorem one_dispatch_per_accepted_request_witness:
  "outbox (snd (app_simple demo_env transport_down initial_state (post alice))) =
     [mailOptions_simple demo_env alice] \<and>
   outbox (snd (run_simple demo_env initial_state
        [(post alice, transport_ok), (post alice, transport_ok)])) =
     [mailOptions_simple demo_env alice, mailOptions_simple demo_env alice] \<and>
   outbox (snd (app_validated demo_env demo_libs transport_down initial_state (post alice))) =
     [mailOptions_validated demo_env alice] \<and>
   outbox (snd (run_validated demo_env demo_libs initial_state
        [(post alice, transport_ok), (post alice, transport_ok)])) =
     [mailOptions_validated demo_env alice, mailOptions_validated demo_env alice]"
proof -
  have o1: "origin_callback (allowedOrigins_simple demo_env) (origin (post alice)) = Inr True"
    by (simp add: pipeline_defs input_defs trim_inputs)
  have o2: "origin_callback (allowedOrigins_validated demo_env) (origin (post alice)) = Inr True"
    by (simp add: pipeline_defs input_defs trim_inputs)
  have r: "route (post alice) = POST_connect" "payload (post alice) = alice"
    by (simp_all add: post_def)
  have f: "\<not> falsy (name alice) \<and> \<not> falsy (email alice) \<and> \<not> falsy (message alice)"
    by (simp add: falsy_def input_defs)
  have l: "current_hits initial_state (ip (post alice)) (arrival (post alice)) = 0" "max_hits = 10"
    by (simp_all add: pipeline_defs input_defs trim_inputs)
  have v: "fst (validators demo_libs (post alice) (Some alice)) = []" "snd (validators demo_libs (post alice) (Some alice)) = alice"
    by (simp_all add: pipeline_defs input_defs trim_inputs)
  have b: "outbox initial_state = []"
    by (simp add: initial_state_def)
  show ?thesis
    using one_dispatch_per_accepted_request [where e = demo_env and req = "post alice"
        and sendMail = transport_down and sendMail' = transport_ok and st = initial_state
        and L = demo_libs]
      one_dispatch_per_accepted_request [where e = demo_env and req = "post alice"
        and sendMail = transport_ok and sendMail' = transport_ok and st = initial_state
        and L = demo_libs]
      o1 o2 r f l v b
    by simp
qed

subsection \<open>The outbound message\<close>

text \<open>
  C6, amended. For a valid submission (in the validated variant: the body carries the
  three fields and the validation chains report nothing) the message handed to
  \<^verbatim>\<open>sendMail\<close> has: in the
  simple variant, \<^verbatim>\<open>from\<close> the operator address alone, \<^verbatim>\<open>replyTo\<close> the email as
  submitted, \<^verbatim>\<open>to\<close> the configured recipient, and the subject
  \<^verbatim>\<open>New Contact Form Submission from\<close> followed by the name; in the validated variant,
  \<^verbatim>\<open>from\<close> the operator address display-named after the trimmed name, \<^verbatim>\<open>replyTo\<close> the
  validated email as \<^verbatim>\<open>normalizeEmail\<close> returns it, \<^verbatim>\<open>to\<close> the configured recipient,
  and the same subject with the trimmed name.
\<close>

theorem outbound_message_fields:
  "(origin_callback (allowedOrigins_simple e) (origin req) = Inr True \<and>
    route req = POST_connect \<and>
    payload req = \<lparr>name = Some n, email = Some em, message = Some m\<rparr> \<and>
    n \<noteq> [] \<and> em \<noteq> [] \<and> m \<noteq> [] \<longrightarrow>
      outbox (snd (app_simple e sendMail st req)) =
        outbox st @ [mailOptions_simple e (payload req)] \<and>
      mail_from (mailOptions_simple e (payload req)) = EMAIL_USER e \<and>
      replyTo (mailOptions_simple e (payload req)) = Some em \<and>
      mail_to (mailOptions_simple e (payload req)) = EMAIL_TO e \<and>
      subject (mailOptions_simple e (payload req)) = ''New Contact Form Submission from '' @ n) \<and>
   (origin_callback (allowedOrigins_validated e) (origin req) = Inr True \<and>
    route req = POST_connect \<and>
    current_hits st (ip req) (arrival req) < max_hits \<and>
    payload req = \<lparr>name = Some n, email = Some em, message = Some m\<rparr> \<and>
    fst (validators L req (Some (payload req))) = [] \<longrightarrow>
      outbox (snd (app_validated e L sendMail st req)) =
        outbox st @ [mailOptions_validated e (snd (validators L req (Some (payload req))))] \<and>
      mail_from (mailOptions_validated e (snd (validators L req (Some (payload req))))) =
        dquote @ trim n @ dquote @ '' <'' @ EMAIL_USER e @ ''>'' \<and>
      replyTo (mailOptions_validated e (snd (validators L req (Some (payload req))))) =
        Some (normalizeEmail L em) \<and>
      mail_to (mailOptions_validated e (snd (validators L req (Some (payload req))))) = EMAIL_TO e \<and>
      subject (mailOptions_validated e (snd (validators L req (Some (payload req))))) =
        ''New Contact Form Submission from '' @ trim n)"
proof (intro conjI impI)
  assume a: "origin_callback (allowedOrigins_simple e) (origin req) = Inr True \<and>
    route req = POST_connect \<and>
    payload req = \<lparr>name = Some n, email = Some em, message = Some m\<rparr> \<and>
    n \<noteq> [] \<and> em \<noteq> [] \<and> m \<noteq> []"
  then show "outbox (snd (app_simple e sendMail st req)) =
      outbox st @ [mailOptions_simple e (payload req)]"
    by (simp add: app_simple_post outbox_connect_simple falsy_def)
  from a show "mail_from (mailOptions_simple e (payload req)) = EMAIL_USER e"
    "replyTo (mailOptions_simple e (payload req)) = Some em"
    "mail_to (mailOptions_simple e (payload req)) = EMAIL_TO e"
    "subject (mailOptions_simple e (payload req)) = ''New Contact Form Submission from '' @ n"
    by (simp_all add: mailOptions_simple_def interpolate_def)
next
  assume a: "origin_callback (allowedOrigins_validated e) (origin req) = Inr True \<and>
    route req = POST_connect \<and>
    current_hits st (ip req) (arrival req) < max_hits \<and>
    payload req = \<lparr>name = Some n, email = Some em, message = Some m\<rparr> \<and>
    fst (validators L req (Some (payload req))) = []"
  then have v: "fst (validators L req (Some \<lparr>name = Some n, email = Some em, message = Some m\<rparr>)) = []"
    by auto
  from a v show "outbox (snd (app_validated e L sendMail st req)) =
      outbox st @ [mailOptions_validated e (snd (validators L req (Some (payload req))))]"
    by (simp add: app_validated_post post_connect_unfold apiLimiter_fst outbox_connect_validated
        outbox_apiLimiter)
  from a show "mail_from (mailOptions_validated e (snd (validators L req (Some (payload req))))) =
      dquote @ trim n @ dquote @ '' <'' @ EMAIL_USER e @ ''>''"
    "replyTo (mailOptions_validated e (snd (validators L req (Some (payload req))))) =
      Some (normalizeEmail L em)"
    "mail_to (mailOptions_validated e (snd (validators L req (Some (payload req))))) = EMAIL_TO e"
    "subject (mailOptions_validated e (snd (validators L req (Some (payload req))))) =
      ''New Contact Form Submission from '' @ trim n"
    by (simp_all add: mailOptions_validated_def interpolate_def
        validators_name_present [of _ n] validators_email_present [of _ em])
qed

text \<open>
  The messages of scenario 1.
\<close>

theorem outbound_message_fields_witness:
  "outbox (snd (app_simple demo_env transport_ok initial_state (post alice))) =
     [mailOptions_simple demo_env alice] \<and>
   mail_from (mailOptions_simple demo_env alice) = ''owner@mail.test'' \<and>
   replyTo (mailOptions_simple demo_env alice) = Some ''alice@example.com'' \<and>
   mail_to (mailOptions_simple demo_env alice) = ''inbox@mail.test'' \<and>
   subject (mailOptions_simple demo_env alice) = ''New Contact Form Submission from Alice'' \<and>
   outbox (snd (app_validated demo_env demo_libs transport_ok initial_state (post alice))) =
     [mailOptions_validated demo_env alice] \<and>
   mail_from (mailOptions_validated demo_env alice) = dquote @ ''Alice'' @ dquote @ '' <owner@mail.test>'' \<and>
   replyTo (mailOptions_validated demo_env alice) = Some ''alice@example.com'' \<and>
   mail_to (mailOptions_validated demo_env alice) = ''inbox@mail.test'' \<and>
   subject (mailOptions_validated demo_env alice) = ''New Contact Form Submission from Alice''"
proof -
  have o1: "origin_callback (allowedOrigins_simple demo_env) (origin (post alice)) = Inr True"
    by (simp add: pipeline_defs input_defs trim_inputs)
  have o2: "origin_callback (allowedOrigins_validated demo_env) (origin (post alice)) = Inr True"
    by (simp add: pipeline_defs input_defs trim_inputs)
  have r: "route (post alice) = POST_connect"
    "payload (post alice) = \<lparr>name = Some ''Alice'', email = Some ''alice@example.com'', message = Some ''Hello''\<rparr>"
    by (simp_all add: post_def alice_def)
  have l: "current_hits initial_state (ip (post alice)) (arrival (post alice)) < max_hits"
    by (simp add: pipeline_defs input_defs trim_inputs)
  have t: "trim ''Alice'' = ''Alice''" "trim ''Hello'' = ''Hello''"
    by (simp_all add: trim_inputs)
  have v: "fst (validators demo_libs (post alice) (Some \<lparr>name = Some ''Alice'', email = Some ''alice@example.com'', message = Some ''Hello''\<rparr>)) = []"
    "snd (validators demo_libs (post alice) (Some \<lparr>name = Some ''Alice'', email = Some ''alice@example.com'', message = Some ''Hello''\<rparr>)) = alice"
    by (simp_all add: pipeline_defs input_defs trim_inputs)
  have d: "isEmail demo_libs ''alice@example.com''" "normalizeEmail demo_libs ''alice@example.com'' = ''alice@example.com''"
    "EMAIL_USER demo_env = ''owner@mail.test''" "EMAIL_TO demo_env = ''inbox@mail.test''"
    "outbox initial_state = []"
    "alice = \<lparr>name = Some ''Alice'', email = Some ''alice@example.com'', message = Some ''Hello''\<rparr>"
    by (simp_all add: input_defs)
  show ?thesis
    using outbound_message_fields [where e = demo_env and req = "post alice"
        and sendMail = transport_ok and st = initial_state and L = demo_libs
        and n = "''Alice''" and em = "''alice@example.com''" and m = "''Hello''"]
      o1 o2 r l t v d
    by simp
qed

text \<open>
  As first stated, with the \<^verbatim>\<open>from\<close> of every message display-named after the
  submitter, C6 fails on the simple variant: the message it builds for scenario 1 has
  the bare operator address as \<^verbatim>\<open>from\<close>.
\<close>

theorem simple_from_is_bare_address:
  "map mail_from (outbox (snd (app_simple demo_env transport_ok initial_state (post alice)))) =
     [''owner@mail.test'']"
  by (simp add: pipeline_defs input_defs trim_inputs)

subsection \<open>Missing fields\<close>

text \<open>
  C3, amended. Validated variant: a submission whose name or message is empty after
  trimming in the body, or is carried by none of the locations the chains read (body,
  headers, query string), or whose email fails \<^verbatim>\<open>isEmail\<close> in the body or is carried by
  none of these locations while \<^verbatim>\<open>isEmail\<close> refuses the empty string, is never handed
  to \<^verbatim>\<open>sendMail\<close>, and the chains report an entry for that field; when a request whose
  chains report anything reaches them (allowed origin, within the limit), the response
  is a 400 whose \<^verbatim>\<open>errors\<close> array holds the entries. Simple variant: a submission whose
  name, email or message is missing or the empty string (untrimmed) is never handed to
  \<^verbatim>\<open>sendMail\<close>, and when its origin is allowed the response is a 400 with the one
  message \<^verbatim>\<open>All fields are required\<close>.
\<close>

theorem missing_fields_rejected:
  "((name (payload req) \<noteq> None \<or> (name (headers req) = None \<and> name (query req) = None)) \<and>
    trim (to_string (name (payload req))) = [] \<longrightarrow>
      \<lparr>error_value = Some [], msg = ''Name is required.'', path = ''name'', location = Body\<rparr>
        \<in> set (fst (validators L req (Some (payload req)))) \<and>
      outbox (snd (app_validated e L sendMail st req)) = outbox st) \<and>
   ((message (payload req) \<noteq> None \<or>
     (message (headers req) = None \<and> message (query req) = None)) \<and>
    trim (to_string (message (payload req))) = [] \<longrightarrow>
      \<lparr>error_value = Some [], msg = ''Message is required.'', path = ''message'', location = Body\<rparr>
        \<in> set (fst (validators L req (Some (payload req)))) \<and>
      outbox (snd (app_validated e L sendMail st req)) = outbox st) \<and>
   ((email (payload req) \<noteq> None \<or> (email (headers req) = None \<and> email (query req) = None)) \<and>
    \<not> isEmail L (to_string (email (payload req))) \<longrightarrow>
      \<lparr>error_value = email (payload req), msg = ''A valid email is required.'', path = ''email'',
        location = Body\<rparr>
        \<in> set (fst (validators L req (Some (payload req)))) \<and>
      outbox (snd (app_validated e L sendMail st req)) = outbox st) \<and>
   (fst (validators L req (Some (payload req))) \<noteq> [] \<and>
    origin_callback (allowedOrigins_validated e) (origin req) = Inr True \<and>
    route req = POST_connect \<and>
    current_hits st (ip req) (arrival req) < max_hits \<longrightarrow>
      fst (app_validated e L sendMail st req) =
        Inr \<lparr>status = 400,
             body = Json (JObj [(''errors'',
               JArr (map json_of_verror (fst (validators L req (Some (payload req))))))])\<rparr>) \<and>
   (falsy (name (payload req)) \<or> falsy (email (payload req)) \<or> falsy (message (payload req)) \<longrightarrow>
      outbox (snd (app_simple e sendMail st req)) = outbox st \<and>
      (origin_callback (allowedOrigins_simple e) (origin req) = Inr True \<and>
       route req = POST_connect \<longrightarrow>
         fst (app_simple e sendMail st req) =
           Inr \<lparr>status = 400, body = Json (JObj [(''message'', JStr ''All fields are required'')])\<rparr>))"
proof -
  have unsent: "outbox (snd (app_validated e L sendMail st req)) = outbox st"
    if "x \<in> set (fst (validators L req (Some (payload req))))" for x
  proof -
    from that have "fst (validators L req (Some (payload req))) \<noteq> []"
      by auto
    then show ?thesis
      by (rule outbox_app_validated_invalid)
  qed
  have n: "\<lparr>error_value = Some [], msg = ''Name is required.'', path = ''name'', location = Body\<rparr>
      \<in> set (fst (validators L req (Some (payload req))))"
    if "(name (payload req) \<noteq> None \<or> (name (headers req) = None \<and> name (query req) = None)) \<and>
      trim (to_string (name (payload req))) = []"
    using that by (simp add: validators_name_entry)
  have m: "\<lparr>error_value = Some [], msg = ''Message is required.'', path = ''message'', location = Body\<rparr>
      \<in> set (fst (validators L req (Some (payload req))))"
    if "(message (payload req) \<noteq> None \<or>
        (message (headers req) = None \<and> message (query req) = None)) \<and>
      trim (to_string (message (payload req))) = []"
    using that by (simp add: validators_message_entry)
  have em: "\<lparr>error_value = email (payload req), msg = ''A valid email is required.'',
        path = ''email'', location = Body\<rparr>
      \<in> set (fst (validators L req (Some (payload req))))"
    if "(email (payload req) \<noteq> None \<or> (email (headers req) = None \<and> email (query req) = None)) \<and>
      \<not> isEmail L (to_string (email (payload req)))"
    using that by (simp add: validators_email_entry)
  have bad: "fst (app_validated e L sendMail st req) =
        Inr \<lparr>status = 400,
             body = Json (JObj [(''errors'',
               JArr (map json_of_verror (fst (validators L req (Some (payload req))))))])\<rparr>"
    if "fst (validators L req (Some (payload req))) \<noteq> [] \<and>
      origin_callback (allowedOrigins_validated e) (origin req) = Inr True \<and>
      route req = POST_connect \<and>
      current_hits st (ip req) (arrival req) < max_hits"
    using that by (simp add: app_validated_invalid)
  have simple: "outbox (snd (app_simple e sendMail st req)) = outbox st \<and>
      (origin_callback (allowedOrigins_simple e) (origin req) = Inr True \<and>
       route req = POST_connect \<longrightarrow>
         fst (app_simple e sendMail st req) =
           Inr \<lparr>status = 400, body = Json (JObj [(''message'', JStr ''All fields are required'')])\<rparr>)"
    if "falsy (name (payload req)) \<or> falsy (email (payload req)) \<or> falsy (message (payload req))"
    using that by (simp add: outbox_app_simple_invalid app_simple_invalid)
  from n m em unsent bad simple show ?thesis
    by blast
qed

text \<open>
  A blank name and no email or message anywhere in the validated variant, an empty name
  in the simple one.
\<close>

theorem missing_fields_rejected_witness:
  "outbox (snd (app_validated demo_env demo_libs transport_ok initial_state
        (post \<lparr>name = Some '' '', email = None, message = None\<rparr>))) = [] \<and>
   fst (app_validated demo_env demo_libs transport_ok initial_state
        (post \<lparr>name = Some '' '', email = None, message = None\<rparr>)) =
     Inr \<lparr>status = 400,
          body = Json (JObj [(''errors'',
            JArr [JObj [(''type'', JStr ''field''), (''value'', JStr []),
                        (''msg'', JStr ''Name is required.''), (''path'', JStr ''name''),
                        (''location'', JStr ''body'')],
                  JObj [(''type'', JStr ''field''),
                        (''msg'', JStr ''A valid email is required.''), (''path'', JStr ''email''),
                        (''location'', JStr ''body'')],
                  JObj [(''type'', JStr ''field''), (''value'', JStr []),
                        (''msg'', JStr ''Message is required.''), (''path'', JStr ''message''),
                        (''location'', JStr ''body'')]])])\<rparr> \<and>
   outbox (snd (app_simple demo_env transport_ok initial_state
        (post \<lparr>name = Some [], email = Some ''x@x.com'', message = Some ''hi''\<rparr>))) = [] \<and>
   fst (app_simple demo_env transport_ok initial_state
        (post \<lparr>name = Some [], email = Some ''x@x.com'', message = Some ''hi''\<rparr>)) =
     Inr \<lparr>status = 400, body = Json (JObj [(''message'', JStr ''All fields are required'')])\<rparr>"
proof -
  let ?b = "\<lparr>name = Some '' '', email = None, message = None\<rparr>"
  let ?c = "\<lparr>name = Some [], email = Some ''x@x.com'', message = Some ''hi''\<rparr>"
  have o: "origin_callback (allowedOrigins_validated demo_env) (origin (post b)) = Inr True"
    "origin_callback (allowedOrigins_simple demo_env) (origin (post b)) = Inr True" for b
    by (simp_all add: pipeline_defs input_defs trim_inputs)
  have r: "route (post b) = POST_connect" "payload (post b) = b"
    "headers (post b) = nothing" "query (post b) = nothing" for b
    by (simp_all add: post_def)
  have none: "name nothing = None" "email nothing = None" "message nothing = None"
    by (simp_all add: nothing_def)
  have l: "current_hits initial_state (ip (post b)) (arrival (post b)) < max_hits" for b
    by (simp add: pipeline_defs input_defs trim_inputs)
  have t: "trim (to_string (name ?b)) = []" "trim (to_string (message ?b)) = []"
    "\<not> isEmail demo_libs (to_string (email ?b))"
    by (simp_all add: trim_inputs to_string_def demo_libs_def)
  have v: "fst (validators demo_libs (post ?b) (Some ?b)) =
      [\<lparr>error_value = Some [], msg = ''Name is required.'', path = ''name'', location = Body\<rparr>,
       \<lparr>error_value = None, msg = ''A valid email is required.'', path = ''email'', location = Body\<rparr>,
       \<lparr>error_value = Some [], msg = ''Message is required.'', path = ''message'', location = Body\<rparr>]"
    by (simp add: pipeline_defs input_defs trim_inputs)
  have f: "falsy (name ?c)"
    by (simp add: falsy_def)
  have b: "outbox initial_state = []"
    by (simp add: initial_state_def)
  show ?thesis
    using missing_fields_rejected [where e = demo_env and req = "post ?b"
        and sendMail = transport_ok and st = initial_state and L = demo_libs]
      missing_fields_rejected [where e = demo_env and req = "post ?c"
        and sendMail = transport_ok and st = initial_state and L = demo_libs]
      o r none l t v f b
    by (simp add: json_of_verror_def location_name_def)
qed

text \<open>
  As first stated, for every submission with a field that is empty after trimming, C3
  fails on the simple variant, which does not trim: a name of three spaces is empty
  after trimming, and the submission is mailed and answered with 200.
\<close>

theorem simple_accepts_blank_name:
  "trim ''   '' = [] \<and>
   fst (app_simple demo_env transport_ok initial_state (post (alice\<lparr>name := Some ''   ''\<rparr>))) =
     Inr \<lparr>status = 200, body = Json (JObj [(''message'', JStr ''Message sent successfully!'')])\<rparr> \<and>
   map subject (outbox (snd (app_simple demo_env transport_ok initial_state
        (post (alice\<lparr>name := Some ''   ''\<rparr>))))) =
     [''New Contact Form Submission from    '']"
  by (simp add: pipeline_defs input_defs trim_inputs)

text \<open>
  The chains of the validated variant run on every location that carries a field, and
  the handler reads the body alone: a name given in the query string passes the chain
  of a request whose body has none, and the body is mailed as it is.
\<close>

lemma query_value_passes_for_body:
  "fst (app_validated demo_env demo_libs transport_ok initial_state
        ((post (alice\<lparr>name := None\<rparr>))\<lparr>query := nothing\<lparr>name := Some ''Bob''\<rparr>\<rparr>)) =
     Inr \<lparr>status = 200, body = Json (JObj [(''message'', JStr ''Message sent successfully!'')])\<rparr> \<and>
   map subject (outbox (snd (app_validated demo_env demo_libs transport_ok initial_state
        ((post (alice\<lparr>name := None\<rparr>))\<lparr>query := nothing\<lparr>name := Some ''Bob''\<rparr>\<rparr>)))) =
     [''New Contact Form Submission from undefined'']"
  by (simp add: pipeline_defs input_defs trim_inputs)

subsection \<open>Invalid email addresses\<close>

text \<open>
  C4, amended. Validated variant: a submission whose email fails \<^verbatim>\<open>isEmail\<close> in the body,
  or is carried by none of the locations the chains read (body, headers, query string)
  while \<^verbatim>\<open>isEmail\<close> refuses the empty string, is never handed to \<^verbatim>\<open>sendMail\<close>, and the
  chains report the email's entry; when it reaches the chains (allowed origin, within
  the limit) the response is a 400 whose \<^verbatim>\<open>errors\<close> array holds the entries. Simple
  variant: the same holds of a missing or empty email only, with the 400 of the presence
  check.
\<close>

theorem invalid_email_rejected:
  "((email (payload req) \<noteq> None \<or> (email (headers req) = None \<and> email (query req) = None)) \<and>
    \<not> isEmail L (to_string (email (payload req))) \<longrightarrow>
      \<lparr>error_value = email (payload req), msg = ''A valid email is required.'', path = ''email'',
        location = Body\<rparr>
        \<in> set (fst (validators L req (Some (payload req)))) \<and>
      outbox (snd (app_validated e L sendMail st req)) = outbox st \<and>
      (origin_callback (allowedOrigins_validated e) (origin req) = Inr True \<and>
       route req = POST_connect \<and>
       current_hits st (ip req) (arrival req) < max_hits \<longrightarrow>
         fst (app_validated e L sendMail st req) =
           Inr \<lparr>status = 400,
                body = Json (JObj [(''errors'',
                  JArr (map json_of_verror (fst (validators L req (Some (payload req))))))])\<rparr>)) \<and>
   (falsy (email (payload req)) \<longrightarrow>
      outbox (snd (app_simple e sendMail st req)) = outbox st \<and>
      (origin_callback (allowedOrigins_simple e) (origin req) = Inr True \<and>
       route req = POST_connect \<longrightarrow>
         fst (app_simple e sendMail st req) =
           Inr \<lparr>status = 400, body = Json (JObj [(''message'', JStr ''All fields are required'')])\<rparr>))"
proof (intro conjI impI)
  assume "(email (payload req) \<noteq> None \<or> (email (headers req) = None \<and> email (query req) = None)) \<and>
    \<not> isEmail L (to_string (email (payload req)))"
  then show entry: "\<lparr>error_value = email (payload req), msg = ''A valid email is required.'',
        path = ''email'', location = Body\<rparr>
      \<in> set (fst (validators L req (Some (payload req))))"
    by (simp add: validators_email_entry)
  then have v: "fst (validators L req (Some (payload req))) \<noteq> []"
    by auto
  then show "outbox (snd (app_validated e L sendMail st req)) = outbox st"
    by (rule outbox_app_validated_invalid)
  assume "origin_callback (allowedOrigins_validated e) (origin req) = Inr True \<and>
       route req = POST_connect \<and>
       current_hits st (ip req) (arrival req) < max_hits"
  with v show "fst (app_validated e L sendMail st req) =
           Inr \<lparr>status = 400,
                body = Json (JObj [(''errors'',
                  JArr (map json_of_verror (fst (validators L req (Some (payload req))))))])\<rparr>"
    by (simp add: app_validated_invalid)
next
  assume f: "falsy (email (payload req))"
  then show "outbox (snd (app_simple e sendMail st req)) = outbox st"
    by (simp add: outbox_app_simple_invalid)
  assume "origin_callback (allowedOrigins_simple e) (origin req) = Inr True \<and>
       route req = POST_connect"
  with f show "fst (app_simple e sendMail st req) =
      Inr \<lparr>status = 400, body = Json (JObj [(''message'', JStr ''All fields are required'')])\<rparr>"
    by (simp add: app_simple_invalid)
qed

text \<open>
  The email \<^verbatim>\<open>not-an-email\<close> in the validated variant, an empty email in the simple
  one.
\<close>

theorem invalid_email_rejected_witness:
  "outbox (snd (app_validated demo_env demo_libs transport_ok initial_state
        (post (alice\<lparr>email := Some ''not-an-email''\<rparr>)))) = [] \<and>
   fst (app_validated demo_env demo_libs transport_ok initial_state
        (post (alice\<lparr>email := Some ''not-an-email''\<rparr>))) =
     Inr \<lparr>status = 400,
          body = Json (JObj [(''errors'',
            JArr [JObj [(''type'', JStr ''field''), (''value'', JStr ''not-an-email''),
                        (''msg'', JStr ''A valid email is required.''), (''path'', JStr ''email''),
                        (''location'', JStr ''body'')]])])\<rparr> \<and>
   outbox (snd (app_simple demo_env transport_ok initial_state (post (alice\<lparr>email := Some []\<rparr>)))) = [] \<and>
   fst (app_simple demo_env transport_ok initial_state (post (alice\<lparr>email := Some []\<rparr>))) =
     Inr \<lparr>status = 400, body = Json (JObj [(''message'', JStr ''All fields are required'')])\<rparr>"
proof -
  let ?b = "alice\<lparr>email := Some ''not-an-email''\<rparr>"
  let ?c = "alice\<lparr>email := Some []\<rparr>"
  have o: "origin_callback (allowedOrigins_validated demo_env) (origin (post b)) = Inr True"
    "origin_callback (allowedOrigins_simple demo_env) (origin (post b)) = Inr True" for b
    by (simp_all add: pipeline_defs input_defs trim_inputs)
  have r: "route (post b) = POST_connect" "payload (post b) = b" for b
    by (simp_all add: post_def)
  have l: "current_hits initial_state (ip (post b)) (arrival (post b)) < max_hits" for b
    by (simp add: pipeline_defs input_defs trim_inputs)
  have n: "email ?b \<noteq> None" "\<not> isEmail demo_libs (to_string (email ?b))"
    by (simp_all add: demo_libs_def to_string_def)
  have v: "fst (validators demo_libs (post ?b) (Some ?b)) =
      [\<lparr>error_value = Some ''not-an-email'', msg = ''A valid email is required.'',
        path = ''email'', location = Body\<rparr>]"
    by (simp add: pipeline_defs input_defs trim_inputs)
  have f: "falsy (email ?c)"
    by (simp add: falsy_def)
  have b: "outbox initial_state = []"
    by (simp add: initial_state_def)
  show ?thesis
    using invalid_email_rejected [where e = demo_env and req = "post ?b"
        and sendMail = transport_ok and st = initial_state and L = demo_libs]
      invalid_email_rejected [where e = demo_env and req = "post ?c"
        and sendMail = transport_ok and st = initial_state and L = demo_libs]
      o r l n v f b
    by (simp add: json_of_verror_def location_name_def)
qed

text \<open>
  As first stated, for every submission with a malformed email, C4 fails on the simple
  variant, which checks no syntax: a submission whose email is \<^verbatim>\<open>not-an-email\<close>, a
  string without an at sign, is mailed, with that string as \<^verbatim>\<open>replyTo\<close>, and answered
  with 200.
\<close>

theorem simple_accepts_malformed_email:
  "CHR ''@'' \<notin> set ''not-an-email'' \<and>
   fst (app_simple demo_env transport_ok initial_state (post (alice\<lparr>email := Some ''not-an-email''\<rparr>))) =
     Inr \<lparr>status = 200, body = Json (JObj [(''message'', JStr ''Message sent successfully!'')])\<rparr> \<and>
   map replyTo (outbox (snd (app_simple demo_env transport_ok initial_state
        (post (alice\<lparr>email := Some ''not-an-email''\<rparr>))))) =
     [Some ''not-an-email'']"
  by (simp add: pipeline_defs input_defs trim_inputs)

subsection \<open>Sanitising\<close>

text \<open>
  C7, on the validated variant. The claim: the fields are stripped or escaped before
  the message is built, so that no input can inject HTML into its body. The sanitising
  middleware is registered (line 99) before \<^verbatim>\<open>express.json()\<close> (line 125), so it runs
  while \<^verbatim>\<open>req.body\<close> is still \<^verbatim>\<open>undefined\<close>: whatever function it would apply to a
  field, the application behaves as without it, and a message that is a script element
  reaches the HTML body as it was submitted.
\<close>

theorem sanitize_runs_before_body_is_parsed:
  "app_validated e (L\<lparr>sanitizer := san\<rparr>) sendMail st req = app_validated e L sendMail st req \<and>
   map mail_html (outbox (snd (app_validated demo_env (demo_libs\<lparr>sanitizer := san\<rparr>) transport_ok
        initial_state (post (alice\<lparr>message := Some ''<script>alert(1)</script>''\<rparr>))))) =
     [Some (newline @ ''        <p><strong>Name:</strong> Alice</p>'' @ newline @
            ''        <p><strong>Email:</strong> alice@example.com</p>'' @ newline @
            ''        <p><strong>Message:</strong> <script>alert(1)</script></p>'' @ newline @
            ''      '')]"
proof
  have "validators (L\<lparr>sanitizer := san\<rparr>) r b = validators L r b" for r b
    by (simp add: validators_def isEmail_normalizeEmail_def)
  then have "post_connect e (L\<lparr>sanitizer := san\<rparr>) sendMail st req b = post_connect e L sendMail st req b" for b
    by (simp add: post_connect_unfold)
  then show "app_validated e (L\<lparr>sanitizer := san\<rparr>) sendMail st req = app_validated e L sendMail st req"
    by (simp add: app_validated_def sanitize_undefined Let_def split: sum.splits route.splits)
  show "map mail_html (outbox (snd (app_validated demo_env (demo_libs\<lparr>sanitizer := san\<rparr>) transport_ok
        initial_state (post (alice\<lparr>message := Some ''<script>alert(1)</script>''\<rparr>))))) =
     [Some (newline @ ''        <p><strong>Name:</strong> Alice</p>'' @ newline @
            ''        <p><strong>Email:</strong> alice@example.com</p>'' @ newline @
            ''        <p><strong>Message:</strong> <script>alert(1)</script></p>'' @ newline @
            ''      '')]"
    by (simp add: pipeline_defs input_defs trim_inputs)
qed

subsection \<open>The limiter\<close>

text \<open>
  C10. The route runs the limiter before the validation chains: whatever the chains
  report, the limiter's store after the route is the store as the limiter leaves it,
  and every request that the route \<^verbatim>\<open>POST /connect\<close> serves raises the count of its
  client's running window by one. In particular a request within the limit whose
  validation fails is answered with 400 and has been counted. For the application, the
  requests served by the route are those the Origin Gate lets in.
\<close>

theorem limiter_counts_before_validation:
  "hits (snd (post_connect e L sendMail st req req_body)) =
     hits (snd (apiLimiter st (ip req) (arrival req))) \<and>
   current_hits (snd (post_connect e L sendMail st req req_body)) (ip req) (arrival req) =
     current_hits st (ip req) (arrival req) + 1 \<and>
   (current_hits st (ip req) (arrival req) < max_hits \<and> fst (validators L req req_body) \<noteq> [] \<longrightarrow>
      fst (post_connect e L sendMail st req req_body) =
        \<lparr>status = 400,
         body = Json (JObj [(''errors'', JArr (map json_of_verror (fst (validators L req req_body))))])\<rparr>) \<and>
   (origin_callback (allowedOrigins_validated e) (origin req) = Inr True \<and>
    route req = POST_connect \<longrightarrow>
      current_hits (snd (app_validated e L sendMail st req)) (ip req) (arrival req) =
        current_hits st (ip req) (arrival req) + 1)"
proof -
  have count: "current_hits (snd (post_connect e L sendMail st req b)) (ip req) (arrival req) =
      current_hits st (ip req) (arrival req) + 1" for b
    by (simp add: post_connect_unfold current_hits_apiLimiter
        current_hits_cong [OF hits_connect_validated])
  have invalid: "fst (post_connect e L sendMail st req req_body) =
        \<lparr>status = 400,
         body = Json (JObj [(''errors'', JArr (map json_of_verror (fst (validators L req req_body))))])\<rparr>"
    if "current_hits st (ip req) (arrival req) < max_hits"
      and "fst (validators L req req_body) \<noteq> []"
    using that
    by (simp add: post_connect_unfold apiLimiter_fst connect_validated_invalid)
  have app: "current_hits (snd (app_validated e L sendMail st req)) (ip req) (arrival req) =
        current_hits st (ip req) (arrival req) + 1"
    if "origin_callback (allowedOrigins_validated e) (origin req) = Inr True"
      and "route req = POST_connect"
    using that count [of "Some (payload req)"]
    by (simp add: app_validated_post)
  have store: "hits (snd (post_connect e L sendMail st req req_body)) =
      hits (snd (apiLimiter st (ip req) (arrival req)))"
    by (simp add: post_connect_unfold hits_connect_validated)
  from store count invalid app show ?thesis
    by blast
qed

text \<open>
  A submission with a blank name: answered with 400, and counted.
\<close>

theorem limiter_counts_before_validation_witness:
  "fst (post_connect demo_env demo_libs transport_ok initial_state
        (post alice) (Some (alice\<lparr>name := Some ''  ''\<rparr>))) =
     \<lparr>status = 400,
      body = Json (JObj [(''errors'',
        JArr [JObj [(''type'', JStr ''field''), (''value'', JStr []),
                    (''msg'', JStr ''Name is required.''), (''path'', JStr ''name''),
                    (''location'', JStr ''body'')]])])\<rparr> \<and>
   current_hits (snd (app_validated demo_env demo_libs transport_ok initial_state
        (post (alice\<lparr>name := Some ''  ''\<rparr>)))) ''203.0.113.7'' 0 = 1"
proof -
  let ?b = "alice\<lparr>name := Some ''  ''\<rparr>"
  have o: "origin_callback (allowedOrigins_validated demo_env) (origin (post ?b)) = Inr True"
    by (simp add: pipeline_defs input_defs trim_inputs)
  have r: "route (post b) = POST_connect" "ip (post b) = ''203.0.113.7''" "arrival (post b) = 0" for b
    by (simp_all add: post_def)
  have l: "current_hits initial_state ''203.0.113.7'' 0 = 0" "max_hits = 10"
    by (simp_all add: pipeline_defs input_defs trim_inputs)
  have v: "fst (validators demo_libs (post alice) (Some ?b)) =
      [\<lparr>error_value = Some [], msg = ''Name is required.'', path = ''name'', location = Body\<rparr>]"
    by (simp add: pipeline_defs input_defs trim_inputs)
  show ?thesis
    using limiter_counts_before_validation [where e = demo_env and req = "post alice"
        and req_body = "Some ?b" and sendMail = transport_ok and st = initial_state
        and L = demo_libs]
      limiter_counts_before_validation [where e = demo_env and req = "post ?b"
        and sendMail = transport_ok and st = initial_state and L = demo_libs]
      o r l v
    by (simp add: json_of_verror_def location_name_def)
qed

text \<open>
  C2, amended. In the validated variant, requests of any clients are served one after
  the other. Counted for a client \<open>key\<close> are its requests that reach the limiter: its
  \<^verbatim>\<open>POST /connect\<close> requests that the Origin Gate lets in. They all arrive within one
  window of \<open>windowMs\<close> milliseconds from \<open>t0\<close> on, no window of that client running at
  \<open>t0\<close>. Then a counted request is answered with the throttle response if and only if at
  least \<open>max_hits\<close> counted requests of the client were served before it, that is from
  the 11th counted request on; and \<^verbatim>\<open>sendMail\<close> is not called for such a request: the
  outbox after it is the outbox before it. The first \<open>max_hits\<close> counted requests are not
  throttled.
\<close>

theorem throttle_beyond_max_hits:
  "(\<forall>x \<in> set rs. reaches_limiter e key (fst x) \<longrightarrow>
      t0 \<le> arrival (fst x) \<and> arrival (fst x) < t0 + windowMs) \<and>
   (\<forall>n start. hits st key = Some (n, start) \<longrightarrow> start + windowMs \<le> t0) \<and>
   i < length rs \<and> reaches_limiter e key (fst (rs ! i)) \<longrightarrow>
     ((fst (run_validated e L st rs) ! i = Inr throttle_response) =
        (max_hits \<le> length (filter (\<lambda>x. reaches_limiter e key (fst x)) (take i rs)))) \<and>
     (max_hits \<le> length (filter (\<lambda>x. reaches_limiter e key (fst x)) (take i rs)) \<longrightarrow>
        outbox (snd (run_validated e L st (take (Suc i) rs))) =
          outbox (snd (run_validated e L st (take i rs))))"
proof (intro impI, elim conjE)
  assume all: "\<forall>x \<in> set rs. reaches_limiter e key (fst x) \<longrightarrow>
      t0 \<le> arrival (fst x) \<and> arrival (fst x) < t0 + windowMs"
    and fresh: "\<forall>n start. hits st key = Some (n, start) \<longrightarrow> start + windowMs \<le> t0"
    and i: "i < length rs" and reached: "reaches_limiter e key (fst (rs ! i))"
  let ?c = "length (filter (\<lambda>x. reaches_limiter e key (fst x)) (take i rs))"
  let ?s = "snd (run_validated e L st (take i rs))"
  let ?x = "rs ! i"
  from reached have key: "ip (fst ?x) = key" and x12: "route (fst ?x) = POST_connect"
    "origin_callback (allowedOrigins_validated e) (origin (fst ?x)) = Inr True"
    by (simp_all add: reaches_limiter_def)
  from i have "?x \<in> set rs" by simp
  with all reached have x34: "t0 \<le> arrival (fst ?x)" "arrival (fst ?x) < t0 + windowMs"
    by blast+
  note x = x12 x34
  note window = run_validated_window [OF all fresh less_imp_le [OF i], of L]
  have resp: "(fst (app_validated e L (snd ?x) ?s (fst ?x)) = Inr throttle_response) = (max_hits \<le> ?c)"
  proof (cases "?c = 0")
    case True
    with window have "\<forall>n start. hits ?s key = Some (n, start) \<longrightarrow> start + windowMs \<le> t0"
      by blast
    with x(3) key have "\<forall>n start. hits ?s (ip (fst ?x)) = Some (n, start) \<longrightarrow>
        start + windowMs \<le> arrival (fst ?x)"
      by fastforce
    from app_validated_fresh(2) [OF this x(1) x(2), of L "snd ?x"] True show ?thesis
      by (simp add: max_hits_def)
  next
    case False
    with window obtain T where T: "hits ?s key = Some (?c, T)" "t0 \<le> T"
      by auto
    then have "arrival (fst ?x) < T + windowMs"
      using x(4) by simp
    from app_validated_live(2) [OF T(1) this key x(1) x(2), of L "snd ?x"] show ?thesis .
  qed
  have out: "outbox (snd (app_validated e L (snd ?x) ?s (fst ?x))) = outbox ?s" if "max_hits \<le> ?c"
  proof -
    from that have "0 < ?c" unfolding max_hits_def by linarith
    with window obtain T where T: "hits ?s key = Some (?c, T)" "t0 \<le> T"
      by auto
    then have "arrival (fst ?x) < T + windowMs"
      using x(4) by simp
    from app_validated_live(3) [OF T(1) this key x(1) x(2) that, of L "snd ?x"] show ?thesis .
  qed
  from resp out show "((fst (run_validated e L st rs) ! i = Inr throttle_response) =
        (max_hits \<le> length (filter (\<lambda>x. reaches_limiter e key (fst x)) (take i rs)))) \<and>
     (max_hits \<le> length (filter (\<lambda>x. reaches_limiter e key (fst x)) (take i rs)) \<longrightarrow>
        outbox (snd (run_validated e L st (take (Suc i) rs))) =
          outbox (snd (run_validated e L st (take i rs))))"
    by (simp add: run_validated_nth [OF i] run_validated_take_Suc [OF i])
qed

text \<open>
  A request that \<^verbatim>\<open>cors\<close> turns away, ten times scenario 1's request, a request of
  another client, and scenario 1's request once more: the client's tenth counted request
  is served, its eleventh is throttled and leaves the outbox as it was.
\<close>

theorem throttle_beyond_max_hits_witness:
  "fst (run_validated demo_env demo_libs initial_state
          ([((post alice)\<lparr>origin := Some ''http://evil.test''\<rparr>, transport_ok)] @
           replicate 10 (post alice, transport_ok) @
           [((post alice)\<lparr>ip := ''198.51.100.9''\<rparr>, transport_ok), (post alice, transport_ok)])) ! 10 \<noteq>
     Inr throttle_response \<and>
   fst (run_validated demo_env demo_libs initial_state
          ([((post alice)\<lparr>origin := Some ''http://evil.test''\<rparr>, transport_ok)] @
           replicate 10 (post alice, transport_ok) @
           [((post alice)\<lparr>ip := ''198.51.100.9''\<rparr>, transport_ok), (post alice, transport_ok)])) ! 12 =
     Inr throttle_response \<and>
   outbox (snd (run_validated demo_env demo_libs initial_state
          ([((post alice)\<lparr>origin := Some ''http://evil.test''\<rparr>, transport_ok)] @
           replicate 10 (post alice, transport_ok) @
           [((post alice)\<lparr>ip := ''198.51.100.9''\<rparr>, transport_ok), (post alice, transport_ok)]))) =
     outbox (snd (run_validated demo_env demo_libs initial_state
          ([((post alice)\<lparr>origin := Some ''http://evil.test''\<rparr>, transport_ok)] @
           replicate 10 (post alice, transport_ok) @
           [((post alice)\<lparr>ip := ''198.51.100.9''\<rparr>, transport_ok)])))"
proof -
  let ?a = "(post alice, transport_ok)"
  let ?b = "((post alice)\<lparr>ip := ''198.51.100.9''\<rparr>, transport_ok)"
  let ?c = "((post alice)\<lparr>origin := Some ''http://evil.test''\<rparr>, transport_ok)"
  let ?rs = "[?c] @ replicate 10 ?a @ [?b, ?a]"
  let ?reach = "\<lambda>x. reaches_limiter demo_env ''203.0.113.7'' (fst x)"
  have a: "?reach ?a" "arrival (fst ?a) = 0"
    by (simp_all add: reaches_limiter_def pipeline_defs input_defs trim_inputs)
  have b: "\<not> ?reach ?b"
    by (simp add: reaches_limiter_def post_def)
  have c: "\<not> ?reach ?c"
    by (simp add: reaches_limiter_def pipeline_defs input_defs trim_inputs)
  have all: "\<forall>x \<in> set ?rs. ?reach x \<longrightarrow> 0 \<le> arrival (fst x) \<and> arrival (fst x) < 0 + windowMs"
    using a b c by (simp add: windowMs_def)
  have fresh: "\<forall>n start. hits initial_state ''203.0.113.7'' = Some (n, start) \<longrightarrow> start + windowMs \<le> 0"
    by (simp add: initial_state_def)
  have n10: "?rs ! 10 = ?a" "take 10 ?rs = [?c] @ replicate 9 ?a"
    by (simp_all add: nth_append nth_Cons')
  have n12: "?rs ! 12 = ?a" "take 12 ?rs = [?c] @ replicate 10 ?a @ [?b]" "take (Suc 12) ?rs = ?rs"
    by (simp_all add: nth_append nth_Cons')
  have c10: "length (filter ?reach ([?c] @ replicate 9 ?a)) = 9"
    using a(1) c by simp
  have c12: "length (filter ?reach ([?c] @ replicate 10 ?a @ [?b])) = 10"
    using a(1) b c by simp
  have len: "10 < length ?rs" "12 < length ?rs"
    by simp_all
  have m: "max_hits = 10"
    by (simp add: max_hits_def)
  from throttle_beyond_max_hits [where e = demo_env and L = demo_libs and st = initial_state
      and rs = ?rs and key = "''203.0.113.7''" and ?t0.0 = 0 and i = 10]
    all fresh len(1) n10 c10 a(1) m
  have r10: "fst (run_validated demo_env demo_libs initial_state ?rs) ! 10 \<noteq> Inr throttle_response"
    by simp
  from throttle_beyond_max_hits [where e = demo_env and L = demo_libs and st = initial_state
      and rs = ?rs and key = "''203.0.113.7''" and ?t0.0 = 0 and i = 12]
    all fresh len(2) n12 c12 a(1) m
  have r12: "fst (run_validated demo_env demo_libs initial_state ?rs) ! 12 = Inr throttle_response \<and>
      outbox (snd (run_validated demo_env demo_libs initial_state ?rs)) =
      outbox (snd (run_validated demo_env demo_libs initial_state ([?c] @ replicate 10 ?a @ [?b])))"
    by simp
  from r10 r12 show ?thesis
    by blast
qed

text \<open>
  As first stated, for every client and every request beyond its 10th \<^verbatim>\<open>POST /connect\<close>
  in a window, C2 fails twice. The simple variant has no limiter: the eleventh of eleven
  requests of one client is answered with 200, and eleven messages are handed to
  \<^verbatim>\<open>sendMail\<close>. In the validated variant \<^verbatim>\<open>cors\<close> runs before the route: after ten
  \<^verbatim>\<open>POST /connect\<close> requests of a client that the Origin Gate turns away, the client's
  eleventh is served with 200.
\<close>

theorem eleventh_request_served:
  "fst (run_simple demo_env initial_state (replicate 11 (post alice, transport_ok))) ! 10 =
     Inr \<lparr>status = 200, body = Json (JObj [(''message'', JStr ''Message sent successfully!'')])\<rparr> \<and>
   length (outbox (snd (run_simple demo_env initial_state
        (replicate 11 (post alice, transport_ok))))) = 11 \<and>
   fst (run_validated demo_env demo_libs initial_state
        (replicate 10 ((post alice)\<lparr>origin := Some ''http://evil.test''\<rparr>, transport_ok) @
         [(post alice, transport_ok)])) ! 10 =
     Inr \<lparr>status = 200, body = Json (JObj [(''message'', JStr ''Message sent successfully!'')])\<rparr>"
proof -
  let ?ok = "Inr \<lparr>status = 200, body = Json (JObj [(''message'', JStr ''Message sent successfully!'')])\<rparr>
    :: js_error + response"
  let ?c = "((post alice)\<lparr>origin := Some ''http://evil.test''\<rparr>, transport_ok)"
  have served: "fst (app_simple demo_env transport_ok s (post alice)) = ?ok" for s
    by (simp add: pipeline_defs input_defs trim_inputs)
  have sent: "length (outbox (snd (app_simple demo_env transport_ok s (post alice)))) =
      Suc (length (outbox s))" for s
    by (simp add: pipeline_defs input_defs trim_inputs)
  note simple = run_simple_replicate [of demo_env transport_ok "post alice" ?ok initial_state 11,
      OF served sent]
  have rejected: "\<forall>x \<in> set (replicate 10 ?c).
      origin_callback (allowedOrigins_validated demo_env) (origin (fst x)) = Inl cors_error"
    by (simp add: pipeline_defs input_defs trim_inputs)
  have "fst (app_validated demo_env demo_libs transport_ok initial_state (post alice)) = ?ok"
    by (simp add: pipeline_defs input_defs trim_inputs)
  then have validated:
    "fst (run_validated demo_env demo_libs initial_state [(post alice, transport_ok)]) = [?ok]"
    by (simp add: split_beta)
  have empty: "outbox initial_state = []"
    by (simp add: initial_state_def)
  from simple validated empty show ?thesis
    by (simp add: run_validated_append run_validated_rejected [OF rejected] nth_append)
qed

end
